theory Spec2Isabelle
  imports Complex_Main "HOL-Library.AList"
begin

section \<open>Values, errors and the Python primitives used by ledfx/api/config.py\<close>

text \<open>
  The request body is whatever \<^verbatim>\<open>request.json()\<close> returns: a JSON value. A Python
  \<^verbatim>\<open>dict\<close> keeps its keys in insertion order, and the order of the keys decides which
  exception is raised first, so a dictionary is an association list (\<open>VMap\<close>). Its keys
  are values: json only makes string keys, but \<^verbatim>\<open>dict.update\<close> with a list of pairs can
  add a number, a boolean or None as a key. Floats are only stored and compared, never
  computed with; a \<^typ>\<open>char\<close> stands for one character of a Python string.
\<close>

datatype val =
    VNone
  | VBool bool
  | VInt int
  | VFloat real
  | VStr string
  | VList "val list"
  | VMap "(val \<times> val) list"

text \<open>
  A dict whose keys are all strings, as json makes them and as the fragments returned by
  \<open>validate_and_trim_config\<close> are: \<open>VDict d\<close> is the value, \<open>d\<close> its items.
\<close>

type_synonym dict = "(string \<times> val) list"

definition skeys :: "dict \<Rightarrow> (val \<times> val) list" where
  "skeys d = map (\<lambda>(k, v). (VStr k, v)) d"

definition VDict :: "dict \<Rightarrow> val" where
  "VDict d = VMap (skeys d)"

text \<open>The exceptions that can travel through the handlers.\<close>

datatype error =
    KeyError string
  | AttributeError
  | TypeError
  | ValueError
  | AssertionError
  | JSONDecodeError
  | MultipleInvalid string
  | OtherError string

type_synonym schema = "val \<Rightarrow> error + val"

text \<open>\<^verbatim>\<open>config.keys()\<close>: only a dict has \<^verbatim>\<open>keys\<close>.\<close>

definition py_keys :: "val \<Rightarrow> error + val list" where
  "py_keys c = (case c of VMap d \<Rightarrow> Inr (map fst d) | _ \<Rightarrow> Inl AttributeError)"

text \<open>
  \<^verbatim>\<open>config.pop(k, default)\<close> with a string key: the value popped and the container as the
  call leaves it. A string key is equal to no key that is not that string. A list's
  \<^verbatim>\<open>pop\<close> takes at most one argument (TypeError); the other JSON values have no
  \<^verbatim>\<open>pop\<close> (AttributeError).
\<close>

definition py_pop :: "val \<Rightarrow> string \<Rightarrow> val \<Rightarrow> error + (val \<times> val)" where
  "py_pop c k dflt =
     (case c of
        VMap d \<Rightarrow>
          (case map_of d (VStr k) of
             Some v \<Rightarrow> Inr (v, VMap (AList.delete (VStr k) d))
           | None \<Rightarrow> Inr (dflt, c))
      | VList _ \<Rightarrow> Inl TypeError
      | _ \<Rightarrow> Inl AttributeError)"

text \<open>\<^verbatim>\<open>c[k]\<close> with a string key: KeyError on a dict without it, TypeError on anything else.\<close>

definition py_getitem :: "val \<Rightarrow> string \<Rightarrow> error + val" where
  "py_getitem c k =
     (case c of
        VMap d \<Rightarrow> (case map_of d (VStr k) of Some v \<Rightarrow> Inr v | None \<Rightarrow> Inl (KeyError k))
      | _ \<Rightarrow> Inl TypeError)"

text \<open>\<^verbatim>\<open>c[k] = v\<close> with a string key.\<close>

definition py_setitem :: "val \<Rightarrow> string \<Rightarrow> val \<Rightarrow> error + val" where
  "py_setitem c k v =
     (case c of VMap d \<Rightarrow> Inr (VMap (AList.update (VStr k) v d)) | _ \<Rightarrow> Inl TypeError)"

text \<open>
  Keys in general. Python finds a key by equality: True, 1 and 1.0 are one key, every
  other key is equal to itself only. A list or a dict cannot be a key (TypeError).
  \<^verbatim>\<open>d[k] = v\<close> keeps the key object that is already there and replaces its value, or
  appends the new item.
\<close>

fun key_num :: "val \<Rightarrow> real option" where
  "key_num (VBool b) = Some (if b then 1 else 0)"
| "key_num (VInt n) = Some (of_int n)"
| "key_num (VFloat r) = Some r"
| "key_num v = None"

definition key_eq :: "val \<Rightarrow> val \<Rightarrow> bool" where
  "key_eq a b = (case key_num a of Some x \<Rightarrow> key_num b = Some x | None \<Rightarrow> a = b)"

fun hashable :: "val \<Rightarrow> bool" where
  "hashable (VList xs) = False"
| "hashable (VMap d) = False"
| "hashable v = True"

fun dict_set :: "val \<Rightarrow> val \<Rightarrow> (val \<times> val) list \<Rightarrow> (val \<times> val) list" where
  "dict_set k v [] = [(k, v)]"
| "dict_set k v ((k', v') # rest) =
     (if key_eq k' k then (k', v) # rest else (k', v') # dict_set k v rest)"

text \<open>\<^verbatim>\<open>d.update(other)\<close> for two dicts: every item of \<open>other\<close>, in its order, is stored.\<close>

fun dict_update :: "(val \<times> val) list \<Rightarrow> (val \<times> val) list \<Rightarrow> (val \<times> val) list" where
  "dict_update d [] = d"
| "dict_update d ((k, v) # rest) = dict_update (dict_set k v d) rest"

text \<open>
  \<^verbatim>\<open>d.update(other)\<close> when \<open>other\<close> is a list: every element is read as a sequence and
  must have two members, the key and the value. A list is its members, a string its
  characters, a dict its keys; a number, a boolean or None is no sequence (TypeError); a
  sequence of another length is a ValueError; a key that cannot be hashed is a TypeError.
  The elements are stored one after the other, so an exception leaves the earlier ones in
  the dict.
\<close>

fun item_pair :: "val \<Rightarrow> error + (val \<times> val)" where
  "item_pair (VList [k, v]) = Inr (k, v)"
| "item_pair (VList xs) = Inl ValueError"
| "item_pair (VStr [a, b]) = Inr (VStr [a], VStr [b])"
| "item_pair (VStr s) = Inl ValueError"
| "item_pair (VMap [(k1, v1), (k2, v2)]) = Inr (k1, k2)"
| "item_pair (VMap d) = Inl ValueError"
| "item_pair v = Inl TypeError"

fun update_pairs :: "(val \<times> val) list \<Rightarrow> val list \<Rightarrow> error option \<times> (val \<times> val) list" where
  "update_pairs d [] = (None, d)"
| "update_pairs d (x # xs) =
     (case item_pair x of
        Inl err \<Rightarrow> (Some err, d)
      | Inr (k, v) \<Rightarrow>
          (if hashable k then update_pairs (dict_set k v d) xs else (Some TypeError, d)))"

text \<open>
  \<^verbatim>\<open>target.update(other)\<close> on values: the exception raised, if any, and the target as the
  call leaves it. Only a dict has \<^verbatim>\<open>update\<close> (AttributeError otherwise). The argument is
  a dict, or an iterable of pairs: a list as above; a string, whose items are strings of
  length one, so that only the empty string is accepted (ValueError otherwise); a number,
  a boolean or None is not iterable (TypeError).
\<close>

definition py_update :: "val \<Rightarrow> val \<Rightarrow> error option \<times> val" where
  "py_update target other =
     (case target of
        VMap d \<Rightarrow>
          (case other of
             VMap o' \<Rightarrow> (None, VMap (dict_update d o'))
           | VList xs \<Rightarrow> (case update_pairs d xs of (r, d') \<Rightarrow> (r, VMap d'))
           | VStr [] \<Rightarrow> (None, target)
           | VStr (_ # _) \<Rightarrow> (Some ValueError, target)
           | _ \<Rightarrow> (Some TypeError, target))
      | _ \<Rightarrow> (Some AttributeError, target))"

section \<open>The collaborators that live outside the file\<close>

text \<open>
  The schemas, the table of permitted keys, the set of keys that need no restart, the
  version constant and the functions of \<^verbatim>\<open>ledfx.config\<close> are imported by the file and
  are parameters here. A schema is called with a value and returns the validated value or
  raises; it does not change its argument. \<open>create_backup\<close> and \<open>save_config\<close> write
  files: they return \<open>None\<close> or the exception they raise. \<open>py_str\<close> is Python's
  \<^verbatim>\<open>str()\<close> on a value that is not a string; it is only needed for the message about a
  key that is not a string.
\<close>

record env =
  PERMITTED_KEYS :: "(string \<times> string list) list"
  CORE_CONFIG_KEYS_NO_RESTART :: "string list"
  CORE_CONFIG_SCHEMA :: schema
  WLED_CONFIG_SCHEMA :: schema
  AUDIO_CONFIG_SCHEMA :: schema
  ANALYSIS_CONFIG_SCHEMA :: schema
  MELBANKS_CONFIG_SCHEMA :: schema
  CONFIGURATION_VERSION :: val
  parse_version :: "val \<Rightarrow> error + int list"
  migrate_config :: "val \<Rightarrow> error + val"
  create_backup :: "string \<Rightarrow> string \<Rightarrow> error option"
  save_config :: "val \<Rightarrow> string \<Rightarrow> error option"
  py_str :: "val \<Rightarrow> string"

section \<open>validate\_and\_trim\_config\<close>

text \<open>
  Lines 29 to 31: the loop over the submitted keys. \<^verbatim>\<open>PERMITTED_KEYS[node]\<close> is read in
  every iteration, so a missing node only raises when there is a key to check. A key that
  is not a string is in no tuple of strings and is not \<^verbatim>\<open>"user_presets"\<close>, so it is
  rejected too. The keys that pass are therefore strings; the loop hands them on as such
  to line 34.
\<close>

definition unknown_key_message :: "string \<Rightarrow> string \<Rightarrow> string" where
  "unknown_key_message node key =
     ''Unknown/forbidden '' @ node @ '' config key: '' @ [CHR 0x27] @ key @ [CHR 0x27]"

fun check_keys :: "env \<Rightarrow> string \<Rightarrow> val list \<Rightarrow> error + string list" where
  "check_keys e node [] = Inr []"
| "check_keys e node (key # keys) =
     (case map_of (PERMITTED_KEYS e) node of
        None \<Rightarrow> Inl (KeyError node)
      | Some permitted \<Rightarrow>
          (case key of
             VStr s \<Rightarrow>
               (if s \<notin> set permitted \<and> s \<noteq> ''user_presets''
                then Inl (KeyError (unknown_key_message node s))
                else (case check_keys e node keys of
                        Inl err \<Rightarrow> Inl err
                      | Inr strs \<Rightarrow> Inr (s # strs)))
           | _ \<Rightarrow> Inl (KeyError (unknown_key_message node (py_str e key)))))"

text \<open>
  Line 34: the dict comprehension \<^verbatim>\<open>{key: validated_config[key] for key in config.keys()}\<close>,
  with the dict built so far as accumulator.
\<close>

fun trim :: "val \<Rightarrow> string list \<Rightarrow> dict \<Rightarrow> error + dict" where
  "trim validated_config [] acc = Inr acc"
| "trim validated_config (key # keys) acc =
     (case py_getitem validated_config key of
        Inl err \<Rightarrow> Inl err
      | Inr v \<Rightarrow> trim validated_config keys (AList.update key v acc))"

definition validate_and_trim_config :: "env \<Rightarrow> val \<Rightarrow> schema \<Rightarrow> string \<Rightarrow> error + dict" where
  "validate_and_trim_config e cfg sch node =
     (case py_keys cfg of
        Inl err \<Rightarrow> Inl err
      | Inr keys \<Rightarrow>
          (case check_keys e node keys of
             Inl err \<Rightarrow> Inl err
           | Inr strs \<Rightarrow>
               (case sch cfg of
                  Inl err \<Rightarrow> Inl err
                | Inr validated_config \<Rightarrow> trim validated_config strs [])))"

section \<open>check\_need\_restart\<close>

definition check_need_restart :: "env \<Rightarrow> val \<Rightarrow> error + bool" where
  "check_need_restart e cfg =
     (case validate_and_trim_config e cfg (CORE_CONFIG_SCHEMA e) ''core'' of
        Inl err \<Rightarrow> Inl err
      | Inr core_config \<Rightarrow>
          (if core_config = [] then Inr False
           else if list_ex (\<lambda>key. map_of core_config key \<noteq> None) (CORE_CONFIG_KEYS_NO_RESTART e)
                then Inr False
                else Inr True))"

section \<open>The service object and what the handlers do to it\<close>

text \<open>
  \<open>self._ledfx\<close>: the live configuration, the configuration directory, the \<open>audio\<close>
  attribute (absent, None, or the audio source), and the calls made to collaborators in
  the order they happen. An assignment to \<open>self._ledfx.config\<close> is recorded at the place
  where it happens, so that one can say what came before it.
\<close>

datatype attr = NoAttribute | IsNone | IsObject

datatype effect =
    CreateBackup string string
  | ConfigAssigned val
  | SaveConfig val string
  | CallSoonStop int
  | FireEvent val
  | AudioUpdateConfig val
  | MelbanksUpdateConfig val

record ledfx =
  config :: val
  config_dir :: string
  audio :: attr
  calls :: "effect list"

definition fire :: "effect \<Rightarrow> ledfx \<Rightarrow> ledfx" where
  "fire ev st = st\<lparr>calls := calls st @ [ev]\<rparr>"

datatype response =
    RequestSuccess "string option" "string option"
  | JsonDecodeErrorResponse
  | GenericError error
  | InternalError string error "string option"
  | InvalidRequest string error

section \<open>update\_config\<close>

text \<open>
  Lines 226 to 249: the three \<open>pop\<close>s and the five validations, in the order of the
  source. The result carries the caller's mapping as the \<open>pop\<close>s have left it.
\<close>

definition validate_fragments ::
  "env \<Rightarrow> val \<Rightarrow> (error + (dict \<times> dict \<times> dict \<times> dict)) \<times> val" where
  "validate_fragments e cfg0 =
     (case py_pop cfg0 ''audio'' (VMap []) of
        Inl err \<Rightarrow> (Inl err, cfg0)
      | Inr (audio_raw, cfg1) \<Rightarrow>
     (case validate_and_trim_config e audio_raw (AUDIO_CONFIG_SCHEMA e) ''audio'' of
        Inl err \<Rightarrow> (Inl err, cfg1)
      | Inr audio1 \<Rightarrow>
     (case validate_and_trim_config e (VDict audio1) (ANALYSIS_CONFIG_SCHEMA e) ''audio'' of
        Inl err \<Rightarrow> (Inl err, cfg1)
      | Inr audio_config \<Rightarrow>
     (case py_pop cfg1 ''wled_preferences'' (VMap []) of
        Inl err \<Rightarrow> (Inl err, cfg1)
      | Inr (wled_raw, cfg2) \<Rightarrow>
     (case validate_and_trim_config e wled_raw (WLED_CONFIG_SCHEMA e) ''wled_preferences'' of
        Inl err \<Rightarrow> (Inl err, cfg2)
      | Inr wled_config \<Rightarrow>
     (case py_pop cfg2 ''melbanks'' (VMap []) of
        Inl err \<Rightarrow> (Inl err, cfg2)
      | Inr (melbanks_raw, cfg3) \<Rightarrow>
     (case validate_and_trim_config e melbanks_raw (MELBANKS_CONFIG_SCHEMA e) ''melbanks'' of
        Inl err \<Rightarrow> (Inl err, cfg3)
      | Inr melbanks_config \<Rightarrow>
     (case validate_and_trim_config e cfg3 (CORE_CONFIG_SCHEMA e) ''core'' of
        Inl err \<Rightarrow> (Inl err, cfg3)
      | Inr core_config \<Rightarrow>
          (Inr (audio_config, wled_config, melbanks_config, core_config), cfg3)))))))))"

text \<open>
  \<^verbatim>\<open>live[k].update(fragment)\<close>: the nested dict is changed in place. With a dict as
  argument, \<^verbatim>\<open>update\<close> only raises when \<open>live[k]\<close> is no dict, and then changes nothing.
\<close>

definition update_item :: "val \<Rightarrow> string \<Rightarrow> dict \<Rightarrow> error + val" where
  "update_item live k fragment =
     (case py_getitem live k of
        Inl err \<Rightarrow> Inl err
      | Inr sub \<Rightarrow>
          (case py_update sub (VDict fragment) of
             (Some err, sub') \<Rightarrow> Inl err
           | (None, sub') \<Rightarrow> py_setitem live k sub'))"

text \<open>
  Lines 257 to 262: one iteration of the loop over \<open>wled_config\<close>: the exception raised,
  if any, and the live configuration as the iteration leaves it. The test
  \<^verbatim>\<open>key in self._ledfx.config["wled_preferences"]\<close> and the two subscriptions that follow
  it end in a TypeError, before anything is written, when the live value is not a dict.
  \<^verbatim>\<open>update\<close> changes the nested dict in place, also when it raises half way.
\<close>

definition wled_step :: "val \<Rightarrow> string \<Rightarrow> val \<Rightarrow> error option \<times> val" where
  "wled_step live key v =
     (case live of
        VMap l \<Rightarrow>
          (case map_of l (VStr ''wled_preferences'') of
             None \<Rightarrow> (Some (KeyError ''wled_preferences''), live)
           | Some prefs \<Rightarrow>
               (case prefs of
                  VMap p \<Rightarrow>
                    (case map_of p (VStr key) of
                       Some old \<Rightarrow>
                         (case py_update old v of
                            (r, new) \<Rightarrow>
                              (r, VMap (AList.update (VStr ''wled_preferences'')
                                          (VMap (AList.update (VStr key) new p)) l)))
                     | None \<Rightarrow>
                         (None, VMap (AList.update (VStr ''wled_preferences'')
                                        (VMap (AList.update (VStr key) v p)) l)))
                | _ \<Rightarrow> (Some TypeError, live)))
      | _ \<Rightarrow> (Some TypeError, live))"

text \<open>
  Line 256: the loop, over the items of \<open>wled_config\<close> in order. An exception leaves the
  live configuration as the iterations so far have made it.
\<close>

fun merge_wled :: "val \<Rightarrow> dict \<Rightarrow> error option \<times> val" where
  "merge_wled live [] = (None, live)"
| "merge_wled live ((key, v) # rest) =
     (case wled_step live key v of
        (Some err, live') \<Rightarrow> (Some err, live')
      | (None, live') \<Rightarrow> merge_wled live' rest)"

text \<open>Lines 264 to 277: the notifications. The function returns None.\<close>

definition notify :: "ledfx \<Rightarrow> dict \<Rightarrow> dict \<Rightarrow> dict \<Rightarrow> val \<Rightarrow> (error + val) \<times> ledfx" where
  "notify st audio_config melbanks_config core_config cfg =
     (case (if audio st = IsObject \<and> audio_config \<noteq> []
            then (case py_getitem (config st) ''audio'' of
                    Inl err \<Rightarrow> Inl err
                  | Inr a \<Rightarrow> Inr (fire (AudioUpdateConfig a) st))
            else Inr st) of
        Inl err \<Rightarrow> (Inl err, st)
      | Inr st1 \<Rightarrow>
     (case (if audio st1 \<noteq> NoAttribute \<and> melbanks_config \<noteq> []
            then (if audio st1 = IsNone then Inl AttributeError
                  else (case py_getitem (config st1) ''melbanks'' of
                          Inl err \<Rightarrow> Inl err
                        | Inr m \<Rightarrow> Inr (fire (MelbanksUpdateConfig m) st1)))
            else Inr st1) of
        Inl err \<Rightarrow> (Inl err, st1)
      | Inr st2 \<Rightarrow>
          (if core_config \<noteq> [] then (Inr VNone, fire (FireEvent cfg) st2)
           else (Inr VNone, st2))))"

text \<open>Lines 251 to 277: the merges, then the notifications.\<close>

definition apply_fragments ::
  "ledfx \<Rightarrow> dict \<Rightarrow> dict \<Rightarrow> dict \<Rightarrow> dict \<Rightarrow> val \<Rightarrow> (error + val) \<times> ledfx" where
  "apply_fragments st audio_config wled_config melbanks_config core_config cfg =
     (case update_item (config st) ''audio'' audio_config of
        Inl err \<Rightarrow> (Inl err, st)
      | Inr c1 \<Rightarrow>
     (case update_item c1 ''melbanks'' melbanks_config of
        Inl err \<Rightarrow> (Inl err, st\<lparr>config := c1\<rparr>)
      | Inr c2 \<Rightarrow>
     (case py_update c2 (VDict core_config) of
        (Some err, c3) \<Rightarrow> (Inl err, st\<lparr>config := c3\<rparr>)
      | (None, c3) \<Rightarrow>
     (case merge_wled c3 wled_config of
        (Some err, c4) \<Rightarrow> (Inl err, st\<lparr>config := c4\<rparr>)
      | (None, c4) \<Rightarrow>
          notify (st\<lparr>config := c4\<rparr>) audio_config melbanks_config core_config cfg))))"

text \<open>
  The whole function: the value returned or the exception raised, the service object and
  the caller's mapping, both as the call leaves them.
\<close>

definition update_config :: "env \<Rightarrow> ledfx \<Rightarrow> val \<Rightarrow> (error + val) \<times> ledfx \<times> val" where
  "update_config e st cfg =
     (case validate_fragments e cfg of
        (Inl err, cfg') \<Rightarrow> (Inl err, st, cfg')
      | (Inr (audio_config, wled_config, melbanks_config, core_config), cfg') \<Rightarrow>
          (case apply_fragments st audio_config wled_config melbanks_config core_config cfg' of
             (r, st') \<Rightarrow> (r, st', cfg')))"

text \<open>
  For a submitted dict: the value that \<^verbatim>\<open>config.pop(k, {})\<close> hands to the validator, and
  the dict that is left once the three sub-namespaces are popped.
\<close>

definition fragment :: "dict \<Rightarrow> string \<Rightarrow> val" where
  "fragment d k = (case map_of d k of Some v \<Rightarrow> v | None \<Rightarrow> VMap [])"

definition residual :: "dict \<Rightarrow> dict" where
  "residual d =
     AList.delete ''melbanks'' (AList.delete ''wled_preferences'' (AList.delete ''audio'' d))"

text \<open>
  The return value that section 4.2 of the specification describes, in the specification's
  words: the namespaces whose validated fragment is not empty.
\<close>

definition changed_namespaces :: "dict \<times> dict \<times> dict \<times> dict \<Rightarrow> string list" where
  "changed_namespaces fragments =
     (case fragments of
        (audio_config, wled_config, melbanks_config, core_config) \<Rightarrow>
          (if audio_config \<noteq> [] then [''audio''] else []) @
          (if wled_config \<noteq> [] then [''wled_preferences''] else []) @
          (if melbanks_config \<noteq> [] then [''melbanks''] else []) @
          (if core_config \<noteq> [] then [''core''] else []))"

text \<open>
  The two-level merge of section 4.2 of the specification, key by key: a key the fragment
  does not have keeps its live value; a key that is new to the live namespace gets the
  submitted value; a key that both have gets the live value updated with the submitted one.
\<close>

definition two_level_merge :: "(val \<times> val) list \<Rightarrow> dict \<Rightarrow> val \<Rightarrow> val option" where
  "two_level_merge live new k =
     (case map_of (skeys new) k of
        None \<Rightarrow> map_of live k
      | Some v \<Rightarrow>
          (case map_of live k of
             None \<Rightarrow> Some v
           | Some old \<Rightarrow> Some (snd (py_update old v))))"

section \<open>The PUT handler\<close>

text \<open>
  Lines 191 to 208, the body of the second \<open>try\<close>: the response, or the exception that
  the handlers below it catch.
\<close>

definition put_body :: "env \<Rightarrow> ledfx \<Rightarrow> val \<Rightarrow> (error + response) \<times> ledfx" where
  "put_body e st cfg =
     (case update_config e st cfg of
        (Inl err, st1, cfg1) \<Rightarrow> (Inl err, st1)
      | (Inr _, st1, cfg1) \<Rightarrow>
          (let st2 = fire (FireEvent cfg1) st1;
               st3 = fire (SaveConfig (config st2) (config_dir st2)) st2
           in case save_config e (config st2) (config_dir st2) of
                Some err \<Rightarrow> (Inl err, st3)
              | None \<Rightarrow>
                  (case check_need_restart e cfg1 of
                     Inl err \<Rightarrow> (Inl err, st3)
                   | Inr need_restart \<Rightarrow>
                       (if need_restart
                        then (Inr (RequestSuccess (Some ''success'')
                                (Some ''LedFx is restarting to apply the new configuration'')),
                              fire (CallSoonStop 4) st3)
                        else (Inr (RequestSuccess (Some ''success'')
                                (Some ''Configuration Updated'')), st3)))))"

text \<open>Lines 209 to 214: the two \<open>except\<close> clauses.\<close>

fun put_except :: "error \<Rightarrow> response" where
  "put_except (KeyError m) = InvalidRequest ''Error updating config: '' (KeyError m)"
| "put_except (MultipleInvalid m) = InvalidRequest ''Error updating config: '' (MultipleInvalid m)"
| "put_except err = InternalError [] err None"

text \<open>
  The handler, given what \<^verbatim>\<open>await request.json()\<close> returned or raised (lines 183 to 188).
\<close>

definition put :: "env \<Rightarrow> ledfx \<Rightarrow> error + val \<Rightarrow> response \<times> ledfx" where
  "put e st request_json =
     (case request_json of
        Inl err \<Rightarrow>
          (if err = JSONDecodeError then (JsonDecodeErrorResponse, st) else (GenericError err, st))
      | Inr cfg \<Rightarrow>
          (case put_body e st cfg of
             (Inl err, st') \<Rightarrow> (put_except err, st')
           | (Inr resp, st') \<Rightarrow> (resp, st')))"

section \<open>The POST handler\<close>

text \<open>Lines 121 to 123: the assertion that the two parsed versions are equal.\<close>

definition check_version :: "env \<Rightarrow> val \<Rightarrow> error + unit" where
  "check_version e cfg =
     (case py_getitem cfg ''configuration_version'' of
        Inl err \<Rightarrow> Inl err
      | Inr v \<Rightarrow>
          (case parse_version e v of
             Inl err \<Rightarrow> Inl err
           | Inr imported \<Rightarrow>
               (case parse_version e (CONFIGURATION_VERSION e) of
                  Inl err \<Rightarrow> Inl err
                | Inr current \<Rightarrow> (if imported = current then Inr () else Inl AssertionError))))"

text \<open>Line 124: \<^verbatim>\<open>except (KeyError, AssertionError)\<close>.\<close>

fun version_except :: "error \<Rightarrow> bool" where
  "version_except (KeyError m) = True"
| "version_except AssertionError = True"
| "version_except err = False"

text \<open>Lines 137 to 162: the backup, the four schemas, the replacement, the save, the stop.\<close>

definition post_commit :: "env \<Rightarrow> ledfx \<Rightarrow> val \<Rightarrow> (error + response) \<times> ledfx" where
  "post_commit e st cfg0 =
     (let st1 = fire (CreateBackup (config_dir st) ''IMPORT'') st in
      case create_backup e (config_dir st) ''IMPORT'' of
        Some err \<Rightarrow> (Inl err, st1)
      | None \<Rightarrow>
     (case py_pop cfg0 ''audio'' (VMap []) of
        Inl err \<Rightarrow> (Inl err, st1)
      | Inr (audio_raw, cfg1) \<Rightarrow>
     (case AUDIO_CONFIG_SCHEMA e audio_raw of
        Inl err \<Rightarrow> (Inl err, st1)
      | Inr audio_config \<Rightarrow>
     (case py_pop cfg1 ''wled_preferences'' (VMap []) of
        Inl err \<Rightarrow> (Inl err, st1)
      | Inr (wled_raw, cfg2) \<Rightarrow>
     (case WLED_CONFIG_SCHEMA e wled_raw of
        Inl err \<Rightarrow> (Inl err, st1)
      | Inr wled_config \<Rightarrow>
     (case py_pop cfg2 ''melbanks'' (VMap []) of
        Inl err \<Rightarrow> (Inl err, st1)
      | Inr (melbanks_raw, cfg3) \<Rightarrow>
     (case MELBANKS_CONFIG_SCHEMA e melbanks_raw of
        Inl err \<Rightarrow> (Inl err, st1)
      | Inr melbanks_config \<Rightarrow>
     (case CORE_CONFIG_SCHEMA e cfg3 of
        Inl err \<Rightarrow> (Inl err, st1)
      | Inr core0 \<Rightarrow>
     (case py_setitem core0 ''audio'' audio_config of
        Inl err \<Rightarrow> (Inl err, st1)
      | Inr core1 \<Rightarrow>
     (case py_setitem core1 ''wled_preferences'' wled_config of
        Inl err \<Rightarrow> (Inl err, st1)
      | Inr core2 \<Rightarrow>
     (case py_setitem core2 ''melbanks'' melbanks_config of
        Inl err \<Rightarrow> (Inl err, st1)
      | Inr core_config \<Rightarrow>
          (let st2 = fire (ConfigAssigned core_config) (st1\<lparr>config := core_config\<rparr>);
               st3 = fire (SaveConfig (config st2) (config_dir st2)) st2
           in case save_config e (config st2) (config_dir st2) of
                Some err \<Rightarrow> (Inl err, st3)
              | None \<Rightarrow>
                  (Inr (RequestSuccess None None), fire (CallSoonStop 4) st3)))))))))))))"

text \<open>
  Lines 119 to 162, the body of the outer \<open>try\<close> once the request body is read. A
  KeyError or an AssertionError of the version check leads to the migration; any exception
  of the migration ends the request with an internal error.
\<close>

definition post_body :: "env \<Rightarrow> ledfx \<Rightarrow> val \<Rightarrow> (error + response) \<times> ledfx" where
  "post_body e st cfg0 =
     (case check_version e cfg0 of
        Inr _ \<Rightarrow> post_commit e st cfg0
      | Inl err \<Rightarrow>
          (if version_except err
           then (case migrate_config e cfg0 of
                   Inl err' \<Rightarrow>
                     (Inr (InternalError
                        ''Failed to migrate import config to the new standard: '' err'
                        (Some ''error'')), st)
                 | Inr cfg1 \<Rightarrow> post_commit e st cfg1)
           else (Inl err, st)))"

text \<open>Lines 164 to 170: the two \<open>except\<close> clauses of the outer \<open>try\<close>; anything else travels on.\<close>

fun post_except :: "error \<Rightarrow> error + response" where
  "post_except JSONDecodeError = Inr JsonDecodeErrorResponse"
| "post_except (MultipleInvalid m) =
     Inr (InternalError ''Error loading config: '' (MultipleInvalid m) (Some ''error''))"
| "post_except err = Inl err"

definition post :: "env \<Rightarrow> ledfx \<Rightarrow> error + val \<Rightarrow> (error + response) \<times> ledfx" where
  "post e st request_json =
     (case request_json of
        Inl err \<Rightarrow> (post_except err, st)
      | Inr cfg \<Rightarrow>
          (case post_body e st cfg of
             (Inl err, st') \<Rightarrow> (post_except err, st')
           | (Inr resp, st') \<Rightarrow> (Inr resp, st')))"

section \<open>The DELETE handler\<close>

definition delete :: "env \<Rightarrow> ledfx \<Rightarrow> (error + response) \<times> ledfx" where
  "delete e st =
     (let st1 = fire (CreateBackup (config_dir st) ''DELETE'') st in
      case create_backup e (config_dir st) ''DELETE'' of
        Some err \<Rightarrow> (Inl err, st1)
      | None \<Rightarrow>
          (case CORE_CONFIG_SCHEMA e (VMap []) of
             Inl err \<Rightarrow> (Inl err, st1)
           | Inr defaults \<Rightarrow>
               (let st2 = fire (ConfigAssigned defaults) (st1\<lparr>config := defaults\<rparr>);
                    st3 = fire (SaveConfig (config st2) (config_dir st2)) st2
                in case save_config e (config st2) (config_dir st2) of
                     Some err \<Rightarrow> (Inl err, st3)
                   | None \<Rightarrow>
                       (Inr (RequestSuccess (Some ''success'')
                          (Some ''Config reset to default values, LedFx restarting.'')),
                        fire (CallSoonStop 4) st3))))"

section \<open>A small installation to run the handlers on\<close>

text \<open>
  Concrete collaborators for the concrete runs below: schemas that fill in defaults and let
  other keys through, a core schema that wants an integer port, versions compared as
  strings, and a migration that only knows version 2.1.0.
\<close>

definition fill_defaults :: "dict \<Rightarrow> schema" where
  "fill_defaults defaults cfg =
     (case cfg of
        VMap d \<Rightarrow> Inr (VMap (dict_update (skeys defaults) d))
      | _ \<Rightarrow> Inl (MultipleInvalid ''expected a dictionary''))"

text \<open>A schema that drops every key it does not know.\<close>

definition known_keys_only :: "string list \<Rightarrow> schema" where
  "known_keys_only known cfg =
     (case cfg of
        VMap d \<Rightarrow> Inr (VMap (filter (\<lambda>(k, v). k \<in> VStr ` set known) d))
      | _ \<Rightarrow> Inl (MultipleInvalid ''expected a dictionary''))"

definition example_core_schema :: schema where
  "example_core_schema cfg =
     (case cfg of
        VMap d \<Rightarrow>
          (case map_of d (VStr ''port'') of
             None \<Rightarrow> fill_defaults [(''host'', VStr ''0.0.0.0''), (''port'', VInt 8888)] cfg
           | Some (VInt n) \<Rightarrow> fill_defaults [(''host'', VStr ''0.0.0.0''), (''port'', VInt 8888)] cfg
           | Some _ \<Rightarrow> Inl (MultipleInvalid ''expected int for dictionary value @ data[port]''))
      | _ \<Rightarrow> Inl (MultipleInvalid ''expected a dictionary''))"

definition example_parse_version :: "val \<Rightarrow> error + int list" where
  "example_parse_version v =
     (case v of
        VStr s \<Rightarrow> Inr (map of_char s)
      | _ \<Rightarrow> Inl (OtherError ''invalid version''))"

definition example_migrate_config :: "val \<Rightarrow> error + val" where
  "example_migrate_config cfg =
     (if py_getitem cfg ''configuration_version'' = Inr (VStr ''2.1.0'')
      then py_setitem cfg ''configuration_version'' (VStr ''2.2.0'')
      else Inl (OtherError ''no migration for this version''))"

definition example_env :: env where
  "example_env =
     \<lparr> PERMITTED_KEYS =
         [(''audio'', [''min_volume'', ''delay_ms'']),
          (''melbanks'', [''max_frequencies'']),
          (''wled_preferences'', [''dev1'', ''dev2'']),
          (''core'', [''global_brightness'', ''scan_on_startup'', ''port'', ''host''])],
       CORE_CONFIG_KEYS_NO_RESTART = [''global_brightness'', ''scan_on_startup''],
       CORE_CONFIG_SCHEMA = example_core_schema,
       WLED_CONFIG_SCHEMA = fill_defaults [],
       AUDIO_CONFIG_SCHEMA = fill_defaults [(''min_volume'', VFloat 0.2), (''delay_ms'', VInt 0)],
       ANALYSIS_CONFIG_SCHEMA = fill_defaults [(''pitch_method'', VStr ''default'')],
       MELBANKS_CONFIG_SCHEMA = fill_defaults [(''max_frequencies'', VList [VInt 350, VInt 2000])],
       CONFIGURATION_VERSION = VStr ''2.2.0'',
       parse_version = example_parse_version,
       migrate_config = example_migrate_config,
       create_backup = (\<lambda>dir reason. None),
       save_config = (\<lambda>cfg dir. None),
       py_str = (\<lambda>v. ''<not a string>'') \<rparr>"

definition example_ledfx :: ledfx where
  "example_ledfx =
     \<lparr> config =
         VDict [(''host'', VStr ''0.0.0.0''), (''port'', VInt 8888),
                (''global_brightness'', VFloat 0.5),
                (''audio'', VDict [(''min_volume'', VFloat 0.2), (''delay_ms'', VInt 0)]),
                (''melbanks'', VDict [(''max_frequencies'', VList [VInt 350, VInt 2000])]),
                (''wled_preferences'', VDict [(''dev1'', VDict [(''ip'', VStr ''1.2.3.4'')])])],
       config_dir = ''/home/user/.ledfx'',
       audio = IsObject,
       calls = [] \<rparr>"

text \<open>The same service with a string where the settings of \<open>dev1\<close> should be.\<close>

definition example_flat_ledfx :: ledfx where
  "example_flat_ledfx =
     example_ledfx\<lparr>config :=
         VDict [(''host'', VStr ''0.0.0.0''), (''port'', VInt 8888),
                (''global_brightness'', VFloat 0.5),
                (''audio'', VDict [(''min_volume'', VFloat 0.2), (''delay_ms'', VInt 0)]),
                (''melbanks'', VDict [(''max_frequencies'', VList [VInt 350, VInt 2000])]),
                (''wled_preferences'', VDict [(''dev1'', VStr ''UDP'')])]\<rparr>"

section \<open>Dicts with string keys\<close>

lemma skeys_Nil: "skeys [] = []"
  by (simp add: skeys_def)

lemma skeys_Cons: "skeys ((k, v) # d) = (VStr k, v) # skeys d"
  by (simp add: skeys_def)

lemma map_of_skeys: "map_of (skeys d) (VStr k) = map_of d k"
  by (induction d) (auto simp: skeys_def)

lemma map_of_skeys_None: "map_of d k = None \<Longrightarrow> map_of (skeys d) (VStr k) = None"
  by (simp add: map_of_skeys)

lemma keys_skeys: "map fst (skeys d) = map VStr (map fst d)"
  by (induction d) (auto simp: skeys_def)

lemma set_keys_skeys: "fst ` set (skeys d) = VStr ` fst ` set d"
  using keys_skeys[of d] by (metis list.set_map)

lemma delete_skeys: "AList.delete (VStr k) (skeys d) = skeys (AList.delete k d)"
  by (induction d) (auto simp: skeys_def AList.delete_eq)

lemma update_skeys: "AList.update (VStr k) v (skeys d) = skeys (AList.update k v d)"
  by (induction d) (auto simp: skeys_def)

lemma skeys_inject: "skeys a = skeys b \<Longrightarrow> a = b"
proof -
  have "inj (\<lambda>(k, v). (VStr k, v :: val))"
    by (auto simp: inj_on_def)
  then show "skeys a = skeys b \<Longrightarrow> a = b"
    unfolding skeys_def by (simp add: inj_map_eq_map)
qed

lemma VDict_inject: "VDict a = VDict b \<longleftrightarrow> a = b"
  by (auto simp: VDict_def dest: skeys_inject)

lemma key_eq_str: "key_eq k' (VStr k) \<longleftrightarrow> k' = VStr k"
  by (cases k') (auto simp: key_eq_def)

lemma dict_set_str: "dict_set (VStr k) v d = AList.update (VStr k) v d"
  by (induction d) (auto simp: key_eq_str)

lemma dict_update_skeys_lookup:
  "distinct (map fst new) \<Longrightarrow>
     map_of (dict_update d (skeys new)) x
       = (case map_of (skeys new) x of Some v \<Rightarrow> Some v | None \<Rightarrow> map_of d x)"
proof (induction new arbitrary: d)
  case Nil
  then show ?case by (simp add: skeys_def)
next
  case (Cons kv rest)
  obtain k v where kv: "kv = (k, v)" by (cases kv)
  from Cons.prems kv have notin: "map_of (skeys rest) (VStr k) = None"
    and dist: "distinct (map fst rest)"
    by (auto simp: map_of_skeys map_of_eq_None_iff)
  have "map_of (dict_update d (skeys (kv # rest))) x
      = (case map_of (skeys rest) x of Some v \<Rightarrow> Some v
         | None \<Rightarrow> map_of (AList.update (VStr k) v d) x)"
    using Cons.IH[OF dist, of "AList.update (VStr k) v d"] kv
    by (simp add: skeys_Cons dict_set_str)
  also have "\<dots> = (case map_of (skeys (kv # rest)) x of Some v \<Rightarrow> Some v | None \<Rightarrow> map_of d x)"
    using notin kv
    by (cases "x = VStr k") (simp_all add: AList.update_conv' skeys_Cons split: option.splits)
  finally show ?case .
qed

lemma dict_update_skeys_conv:
  "distinct (map fst new) \<Longrightarrow> map_of (dict_update d (skeys new)) = map_of d ++ map_of (skeys new)"
  by (rule ext) (simp add: dict_update_skeys_lookup map_add_def)

lemma dict_update_skeys_closed:
  "\<exists>dnew. dict_update (skeys d) (skeys new) = skeys dnew
      \<and> (distinct (map fst new) \<longrightarrow> map_of dnew = map_of d ++ map_of new)"
proof -
  have closed: "\<exists>dnew. dict_update (skeys d) (skeys new) = skeys dnew" for d
  proof (induction new arbitrary: d)
    case Nil
    then show ?case by (auto simp: skeys_def)
  next
    case (Cons kv rest)
    obtain k v where kv: "kv = (k, v)" by (cases kv)
    from Cons.IH[of "AList.update k v d"] kv show ?case
      by (simp add: skeys_Cons dict_set_str update_skeys)
  qed
  then obtain dnew where dnew: "dict_update (skeys d) (skeys new) = skeys dnew" by blast
  have "map_of dnew = map_of d ++ map_of new" if dist: "distinct (map fst new)"
  proof (rule ext)
    fix k
    have "map_of dnew k = map_of (skeys dnew) (VStr k)" by (simp add: map_of_skeys)
    also have "\<dots> = (case map_of (skeys new) (VStr k) of Some v \<Rightarrow> Some v
                      | None \<Rightarrow> map_of (skeys d) (VStr k))"
      unfolding dnew[symmetric] using dist by (rule dict_update_skeys_lookup)
    also have "\<dots> = (map_of d ++ map_of new) k"
      by (simp add: map_of_skeys map_add_def split: option.splits)
    finally show "map_of dnew k = (map_of d ++ map_of new) k" .
  qed
  with dnew show ?thesis by blast
qed

lemma py_keys_VDict: "py_keys (VDict d) = Inr (map fst (skeys d))"
  by (simp add: py_keys_def VDict_def)

lemma py_getitem_VDict:
  "py_getitem (VDict d) k = (case map_of d k of Some v \<Rightarrow> Inr v | None \<Rightarrow> Inl (KeyError k))"
  by (simp add: py_getitem_def VDict_def map_of_skeys)

lemma py_setitem_VDict: "py_setitem (VDict d) k v = Inr (VDict (AList.update k v d))"
  by (simp add: py_setitem_def VDict_def update_skeys)

section \<open>Facts about the two loops of validate\_and\_trim\_config\<close>

lemma trim_keys: "trim v ks acc = Inr d \<Longrightarrow> fst ` set d = fst ` set acc \<union> set ks"
  by (induction ks arbitrary: acc) (auto simp: AList.dom_update split: sum.splits)

lemma trim_distinct: "distinct (map fst acc) \<Longrightarrow> trim v ks acc = Inr d \<Longrightarrow> distinct (map fst d)"
proof (induction ks arbitrary: acc)
  case Nil
  then show ?case by simp
next
  case (Cons k ks)
  from Cons.prems(2) obtain x where "trim v ks (AList.update k x acc) = Inr d"
    by (auto split: sum.splits)
  moreover have "distinct (map fst (AList.update k x acc))"
    using Cons.prems(1) by (rule AList.distinct_update)
  ultimately show ?case by (rule Cons.IH[rotated])
qed

lemma trim_lookup:
  "trim (VMap out) ks acc = Inr d \<Longrightarrow>
     map_of d k = (if k \<in> set ks then map_of out (VStr k) else map_of acc k)"
  by (induction ks arbitrary: acc)
     (auto simp: AList.update_conv' py_getitem_def split: sum.splits option.splits if_splits)

lemma trim_missing:
  "List.find (\<lambda>k. map_of out (VStr k) = None) ks = Some k
     \<Longrightarrow> trim (VMap out) ks acc = Inl (KeyError k)"
  by (induction ks arbitrary: acc) (auto simp: py_getitem_def split: if_splits option.splits)

lemma trim_present:
  "List.find (\<lambda>k. map_of out (VStr k) = None) ks = None
     \<Longrightarrow> \<exists>d. trim (VMap out) ks acc = Inr d"
  by (induction ks arbitrary: acc) (auto simp: py_getitem_def split: if_splits option.splits)

lemma check_keys_strs: "check_keys e node ks = Inr strs \<Longrightarrow> ks = map VStr strs"
  by (induction ks arbitrary: strs)
     (auto split: option.splits val.splits if_splits sum.splits)

lemma check_keys_find:
  "map_of (PERMITTED_KEYS e) node = Some permitted \<Longrightarrow>
   check_keys e node (map VStr ks) =
     (case List.find (\<lambda>k. k \<notin> set permitted \<and> k \<noteq> ''user_presets'') ks of
        None \<Rightarrow> Inr ks
      | Some k \<Rightarrow> Inl (KeyError (unknown_key_message node k)))"
  by (induction ks) (auto split: option.splits)

lemma find_Some_set: "List.find P xs = Some x \<Longrightarrow> x \<in> set xs \<and> P x"
  by (induction xs) (auto split: if_splits)

lemma VMap_string_keys:
  "map fst kvs = map VStr strs \<Longrightarrow> VMap kvs = VDict (zip strs (map snd kvs))"
proof (induction kvs arbitrary: strs)
  case Nil
  then show ?case by (simp add: VDict_def skeys_def)
next
  case (Cons kv kvs)
  then obtain s rest where strs: "strs = s # rest" by (cases strs) auto
  with Cons.prems have "fst kv = VStr s" and "map fst kvs = map VStr rest" by simp_all
  with Cons.IH[of rest] strs show ?case
    by (cases kv) (simp add: VDict_def skeys_def)
qed

lemma validate_and_trim_config_Inr:
  assumes "validate_and_trim_config e cfg sch node = Inr r"
  shows "\<exists>f. cfg = VDict f \<and> fst ` set r = fst ` set f \<and> distinct (map fst r)"
proof -
  from assms obtain kvs where kvs: "cfg = VMap kvs"
    by (cases cfg) (auto simp: validate_and_trim_config_def py_keys_def)
  from assms kvs obtain strs v where
    ck: "check_keys e node (map fst kvs) = Inr strs" and tr: "trim v strs [] = Inr r"
    by (auto simp: validate_and_trim_config_def py_keys_def split: sum.splits)
  from check_keys_strs[OF ck] have keys: "map fst kvs = map VStr strs" .
  let ?f = "zip strs (map snd kvs)"
  have len: "length strs = length kvs"
    using keys by (metis length_map)
  have "cfg = VDict ?f"
    using VMap_string_keys[OF keys] kvs by simp
  moreover have "fst ` set ?f = set strs"
    using len by (metis length_map list.set_map map_fst_zip)
  moreover from tr have "fst ` set r = set strs" and "distinct (map fst r)"
    using trim_keys[of v strs "[]" r] trim_distinct[of "[]" v strs r] by auto
  ultimately show ?thesis by blast
qed

lemma validate_and_trim_config_VDict:
  "validate_and_trim_config e (VDict f) sch node =
     (case check_keys e node (map VStr (map fst f)) of
        Inl err \<Rightarrow> Inl err
      | Inr strs \<Rightarrow>
          (case sch (VDict f) of
             Inl err \<Rightarrow> Inl err
           | Inr validated_config \<Rightarrow> trim validated_config strs []))"
  by (simp add: validate_and_trim_config_def py_keys_VDict keys_skeys)

lemmas example_defs =
  example_env_def example_ledfx_def example_flat_ledfx_def example_core_schema_def
  fill_defaults_def example_parse_version_def example_migrate_config_def known_keys_only_def

lemmas run_defs =
  validate_and_trim_config_def py_keys_def py_getitem_def py_setitem_def py_pop_def
  py_update_def fragment_def residual_def AList.delete_eq VDict_def skeys_def key_eq_def

lemma example_core_lookup:
  "map_of (PERMITTED_KEYS example_env) ''core''
     = Some [''global_brightness'', ''scan_on_startup'', ''port'', ''host'']"
  by (simp add: example_env_def)

lemma example_restart_runs:
  "validate_and_trim_config example_env (VDict [(''bogus'', VInt 1)])
      (CORE_CONFIG_SCHEMA example_env) ''core'' = Inl (KeyError (unknown_key_message ''core'' ''bogus''))"
  "validate_and_trim_config example_env (VDict [])
      (CORE_CONFIG_SCHEMA example_env) ''core'' = Inr []"
  "validate_and_trim_config example_env (VDict [(''port'', VInt 80)])
      (CORE_CONFIG_SCHEMA example_env) ''core'' = Inr [(''port'', VInt 80)]"
  "validate_and_trim_config example_env (VDict [(''global_brightness'', VFloat 0.8), (''port'', VInt 80)])
      (CORE_CONFIG_SCHEMA example_env) ''core'' = Inr [(''global_brightness'', VFloat 0.8), (''port'', VInt 80)]"
  by (simp_all add: run_defs example_defs)

section \<open>The trimming validator\<close>

text \<open>
  C3. Whenever \<open>validate_and_trim_config\<close> returns, its argument was a dict and every key
  of the returned dict is a key of the argument: no default that the schema filled in for
  a key the caller did not submit is in the result.
\<close>

theorem validate_and_trim_config_keys_subset:
  assumes "validate_and_trim_config e cfg sch node = Inr r"
  shows "\<exists>f. cfg = VDict f \<and> fst ` set r \<subseteq> fst ` set f"
proof -
  from validate_and_trim_config_Inr[OF assms] obtain f
    where "cfg = VDict f" and "fst ` set r = fst ` set f" by blast
  then show ?thesis by blast
qed

theorem validate_and_trim_config_keys_subset_witness:
  "validate_and_trim_config example_env (VDict [(''port'', VInt 80)])
       (CORE_CONFIG_SCHEMA example_env) ''core'' = Inr [(''port'', VInt 80)]
   \<and> (\<exists>f. VDict [(''port'', VInt 80)] = VDict f \<and> fst ` set [(''port'', VInt 80)] \<subseteq> fst ` set f)"
proof -
  have run: "validate_and_trim_config example_env (VDict [(''port'', VInt 80)])
       (CORE_CONFIG_SCHEMA example_env) ''core'' = Inr [(''port'', VInt 80)]"
    by (rule example_restart_runs(3))
  from validate_and_trim_config_keys_subset[OF run] run show ?thesis by simp
qed

text \<open>
  C4. If the fragment has a key that is neither in \<open>PERMITTED_KEYS[node]\<close> nor
  \<open>user_presets\<close>, the call raises the KeyError whose message names the node and the first
  such key, in the order of the fragment; nothing is returned, whatever the schema is.
\<close>

theorem validate_and_trim_config_unknown_key:
  assumes "map_of (PERMITTED_KEYS e) node = Some permitted"
    and "k \<in> fst ` set f" and "k \<notin> set permitted" and "k \<noteq> ''user_presets''"
  shows "\<exists>k'. List.find (\<lambda>k. k \<notin> set permitted \<and> k \<noteq> ''user_presets'') (map fst f) = Some k'
           \<and> k' \<in> fst ` set f \<and> k' \<notin> set permitted \<and> k' \<noteq> ''user_presets''
           \<and> validate_and_trim_config e (VDict f) sch node
               = Inl (KeyError (unknown_key_message node k'))"
proof -
  let ?bad = "\<lambda>k. k \<notin> set permitted \<and> k \<noteq> ''user_presets''"
  have "k \<in> set (map fst f)" using assms(2) by simp
  with assms(3,4) have "\<exists>x. x \<in> set (map fst f) \<and> ?bad x" by blast
  then have "List.find ?bad (map fst f) \<noteq> None"
    unfolding find_None_iff by blast
  then obtain k' where k': "List.find ?bad (map fst f) = Some k'" by blast
  from find_Some_set[OF k'] have in_f: "k' \<in> fst ` set f" and bad: "?bad k'"
    by simp_all
  have "check_keys e node (map VStr (map fst f)) = Inl (KeyError (unknown_key_message node k'))"
    using check_keys_find[OF assms(1), of "map fst f"] k' by simp
  then have "validate_and_trim_config e (VDict f) sch node
      = Inl (KeyError (unknown_key_message node k'))"
    by (simp add: validate_and_trim_config_VDict)
  with k' in_f bad show ?thesis by blast
qed

theorem validate_and_trim_config_unknown_key_witness:
  "validate_and_trim_config example_env (VDict [(''port'', VInt 80), (''bogus'', VInt 1)])
       (CORE_CONFIG_SCHEMA example_env) ''core''
     = Inl (KeyError (unknown_key_message ''core'' ''bogus''))"
  using validate_and_trim_config_unknown_key[OF example_core_lookup,
      of "''bogus''" "[(''port'', VInt 80), (''bogus'', VInt 1)]" "CORE_CONFIG_SCHEMA example_env"]
  by simp

text \<open>
  C9. Whenever \<open>validate_and_trim_config\<close> returns, the keys of the result are exactly the
  keys submitted. When the key check passes and the schema returns a dict that lacks a
  submitted key, the call raises the KeyError of such a key. When, moreover, the schema
  keeps every permitted key it is given, the only exception the trimming step can raise is
  the KeyError of \<open>user_presets\<close>.
\<close>

theorem validate_and_trim_config_keys_exact:
  "(validate_and_trim_config e cfg sch node = Inr r
      \<longrightarrow> (\<exists>f. cfg = VDict f \<and> fst ` set r = fst ` set f))
   \<and> (check_keys e node (map fst (skeys f)) = Inr (map fst f) \<and> sch (VDict f) = Inr (VMap out)
        \<and> \<not> VStr ` fst ` set f \<subseteq> fst ` set out
      \<longrightarrow> (\<exists>k. k \<in> fst ` set f \<and> VStr k \<notin> fst ` set out
             \<and> validate_and_trim_config e (VDict f) sch node = Inl (KeyError k)))
   \<and> (check_keys e node (map fst (skeys f)) = Inr (map fst f) \<and> sch (VDict f) = Inr (VMap out)
        \<and> map_of (PERMITTED_KEYS e) node = Some permitted
        \<and> VStr ` (fst ` set f \<inter> set permitted) \<subseteq> fst ` set out
        \<and> validate_and_trim_config e (VDict f) sch node = Inl err
      \<longrightarrow> err = KeyError ''user_presets'')"
proof (intro conjI impI)
  assume "validate_and_trim_config e cfg sch node = Inr r"
  from validate_and_trim_config_Inr[OF this]
  show "\<exists>f. cfg = VDict f \<and> fst ` set r = fst ` set f" by blast
next
  assume a: "check_keys e node (map fst (skeys f)) = Inr (map fst f) \<and> sch (VDict f) = Inr (VMap out)
        \<and> \<not> VStr ` fst ` set f \<subseteq> fst ` set out"
  let ?missing = "\<lambda>k. map_of out (VStr k) = None"
  from a have "\<exists>x. x \<in> set (map fst f) \<and> ?missing x"
    unfolding map_of_eq_None_iff by auto
  then have "List.find ?missing (map fst f) \<noteq> None"
    unfolding find_None_iff by blast
  then obtain k where k: "List.find ?missing (map fst f) = Some k" by blast
  from find_Some_set[OF k] have "k \<in> fst ` set f" and "VStr k \<notin> fst ` set out"
    by (simp_all add: map_of_eq_None_iff)
  moreover have "validate_and_trim_config e (VDict f) sch node = Inl (KeyError k)"
    using a trim_missing[OF k] by (simp add: validate_and_trim_config_VDict keys_skeys)
  ultimately show "\<exists>k. k \<in> fst ` set f \<and> VStr k \<notin> fst ` set out
             \<and> validate_and_trim_config e (VDict f) sch node = Inl (KeyError k)" by blast
next
  assume a: "check_keys e node (map fst (skeys f)) = Inr (map fst f) \<and> sch (VDict f) = Inr (VMap out)
        \<and> map_of (PERMITTED_KEYS e) node = Some permitted
        \<and> VStr ` (fst ` set f \<inter> set permitted) \<subseteq> fst ` set out
        \<and> validate_and_trim_config e (VDict f) sch node = Inl err"
  let ?missing = "\<lambda>k. map_of out (VStr k) = None"
  let ?bad = "\<lambda>k. k \<notin> set permitted \<and> k \<noteq> ''user_presets''"
  from a have tr: "trim (VMap out) (map fst f) [] = Inl err"
    by (clarsimp simp: validate_and_trim_config_VDict keys_skeys)
  have "List.find ?missing (map fst f) \<noteq> None"
  proof
    assume "List.find ?missing (map fst f) = None"
    from trim_present[OF this, of "[]"] tr show False by auto
  qed
  then obtain k where k: "List.find ?missing (map fst f) = Some k" by blast
  from trim_missing[OF k, of "[]"] tr have err: "err = KeyError k" by simp
  from find_Some_set[OF k] have kf: "k \<in> set (map fst f)" and kout: "VStr k \<notin> fst ` set out"
    by (simp_all add: map_of_eq_None_iff)
  from a have ck: "check_keys e node (map VStr (map fst f)) = Inr (map fst f)"
    and perm: "map_of (PERMITTED_KEYS e) node = Some permitted" by (simp_all add: keys_skeys)
  with check_keys_find[OF perm, of "map fst f"]
  have "List.find ?bad (map fst f) = None" by (simp split: option.splits)
  then have "\<not> ?bad k" using kf unfolding find_None_iff by blast
  moreover from a kf kout have "k \<notin> set permitted" by auto
  ultimately show "err = KeyError ''user_presets''" using err by simp
qed

theorem validate_and_trim_config_keys_exact_witness:
  "validate_and_trim_config example_env (VDict [(''port'', VInt 80)])
       (CORE_CONFIG_SCHEMA example_env) ''core'' = Inr [(''port'', VInt 80)]
   \<and> (\<exists>f. VDict [(''port'', VInt 80)] = VDict f
          \<and> fst ` set [(''port'', VInt 80)] = fst ` set f)
   \<and> validate_and_trim_config example_env
         (VDict [(''port'', VInt 80), (''user_presets'', VDict [])])
         (known_keys_only [''port'', ''host'']) ''core'' = Inl (KeyError ''user_presets'')"
proof -
  let ?f = "[(''port'', VInt 80), (''user_presets'', VDict [])]"
  let ?sch = "known_keys_only [''port'', ''host'']"
  have run: "validate_and_trim_config example_env (VDict [(''port'', VInt 80)])
       (CORE_CONFIG_SCHEMA example_env) ''core'' = Inr [(''port'', VInt 80)]"
    by (rule example_restart_runs(3))
  have keys: "check_keys example_env ''core'' (map fst (skeys ?f)) = Inr (map fst ?f)"
    by (simp add: example_env_def skeys_def)
  have out: "?sch (VDict ?f) = Inr (VMap [(VStr ''port'', VInt 80)])"
    by (simp add: known_keys_only_def VDict_def skeys_def)
  have fails: "validate_and_trim_config example_env (VDict ?f) ?sch ''core''
      = Inl (KeyError ''user_presets'')"
    by (simp add: run_defs example_defs)
  have "\<exists>f. VDict [(''port'', VInt 80)] = VDict f
          \<and> fst ` set [(''port'', VInt 80)] = fst ` set f"
    using validate_and_trim_config_keys_exact[of example_env "VDict [(''port'', VInt 80)]"
        "CORE_CONFIG_SCHEMA example_env" "''core''" "[(''port'', VInt 80)]"] run by blast
  moreover have "KeyError ''user_presets'' = KeyError ''user_presets''"
    using validate_and_trim_config_keys_exact[of example_env _ ?sch "''core''" _ ?f
        "[(VStr ''port'', VInt 80)]" "[''global_brightness'', ''scan_on_startup'', ''port'', ''host'']"
        "KeyError ''user_presets''"] keys out fails example_core_lookup
    by simp
  ultimately show ?thesis using run fails by simp
qed

section \<open>The restart classifier\<close>

text \<open>
  C2. \<open>check_need_restart\<close> validates and trims its argument against the core namespace and
  passes an exception of that step on. An empty trimmed fragment needs no restart; a
  non-empty one needs a restart when none of its keys is in \<open>CORE_CONFIG_KEYS_NO_RESTART\<close>,
  and needs none as soon as one of its keys is, whatever the other keys are.
\<close>

theorem check_need_restart_classification:
  "(validate_and_trim_config e cfg (CORE_CONFIG_SCHEMA e) ''core'' = Inl err
      \<longrightarrow> check_need_restart e cfg = Inl err)
   \<and> (validate_and_trim_config e cfg (CORE_CONFIG_SCHEMA e) ''core'' = Inr []
      \<longrightarrow> check_need_restart e cfg = Inr False)
   \<and> (validate_and_trim_config e cfg (CORE_CONFIG_SCHEMA e) ''core'' = Inr t \<and> t \<noteq> []
        \<and> fst ` set t \<inter> set (CORE_CONFIG_KEYS_NO_RESTART e) = {}
      \<longrightarrow> check_need_restart e cfg = Inr True)
   \<and> (validate_and_trim_config e cfg (CORE_CONFIG_SCHEMA e) ''core'' = Inr t
        \<and> k \<in> fst ` set t \<and> k \<in> set (CORE_CONFIG_KEYS_NO_RESTART e)
      \<longrightarrow> check_need_restart e cfg = Inr False)"
proof -
  have ex: "list_ex (\<lambda>key. map_of t key \<noteq> None) (CORE_CONFIG_KEYS_NO_RESTART e)
      \<longleftrightarrow> fst ` set t \<inter> set (CORE_CONFIG_KEYS_NO_RESTART e) \<noteq> {}"
    unfolding list_ex_iff map_of_eq_None_iff by blast
  show ?thesis
    unfolding check_need_restart_def using ex by auto
qed

theorem check_need_restart_classification_witness:
  "check_need_restart example_env (VDict [(''bogus'', VInt 1)])
       = Inl (KeyError (unknown_key_message ''core'' ''bogus''))
   \<and> check_need_restart example_env (VDict []) = Inr False
   \<and> check_need_restart example_env (VDict [(''port'', VInt 80)]) = Inr True
   \<and> check_need_restart example_env
         (VDict [(''global_brightness'', VFloat 0.8), (''port'', VInt 80)]) = Inr False"
proof -
  have no: "CORE_CONFIG_KEYS_NO_RESTART example_env = [''global_brightness'', ''scan_on_startup'']"
    by (simp add: example_env_def)
  have "check_need_restart example_env (VDict [(''bogus'', VInt 1)])
       = Inl (KeyError (unknown_key_message ''core'' ''bogus''))"
    using check_need_restart_classification[of example_env "VDict [(''bogus'', VInt 1)]"
        "KeyError (unknown_key_message ''core'' ''bogus'')"] example_restart_runs(1) by simp
  moreover have "check_need_restart example_env (VDict []) = Inr False"
    using check_need_restart_classification[of example_env "VDict []"] example_restart_runs(2)
    by simp
  moreover have "check_need_restart example_env (VDict [(''port'', VInt 80)]) = Inr True"
    using check_need_restart_classification[of example_env "VDict [(''port'', VInt 80)]" _
        "[(''port'', VInt 80)]"] example_restart_runs(3) no by simp
  moreover have "check_need_restart example_env
         (VDict [(''global_brightness'', VFloat 0.8), (''port'', VInt 80)]) = Inr False"
    using check_need_restart_classification[of example_env
        "VDict [(''global_brightness'', VFloat 0.8), (''port'', VInt 80)]" _
        "[(''global_brightness'', VFloat 0.8), (''port'', VInt 80)]" "''global_brightness''"]
      example_restart_runs(4) no by simp
  ultimately show ?thesis by simp
qed

section \<open>update\_config: validation comes before every write\<close>

lemma py_pop_dict:
  "py_pop (VDict d) k (VMap []) = Inr (fragment d k, VDict (AList.delete k d))"
proof (cases "map_of d k")
  case None
  then have "k \<notin> fst ` set d" by (simp add: map_of_eq_None_iff)
  then have "AList.delete k d = d" by (rule AList.delete_id)
  with None show ?thesis by (simp add: py_pop_def fragment_def VDict_def map_of_skeys)
next
  case (Some v)
  then show ?thesis by (simp add: py_pop_def fragment_def VDict_def map_of_skeys delete_skeys)
qed

lemma fragment_delete: "k' \<noteq> k \<Longrightarrow> fragment (AList.delete k d) k' = fragment d k'"
  by (simp add: fragment_def)

lemma validate_fragments_dict:
  "validate_fragments e (VDict d) =
     (case validate_and_trim_config e (fragment d ''audio'') (AUDIO_CONFIG_SCHEMA e) ''audio'' of
        Inl err \<Rightarrow> (Inl err, VDict (AList.delete ''audio'' d))
      | Inr audio1 \<Rightarrow>
     (case validate_and_trim_config e (VDict audio1) (ANALYSIS_CONFIG_SCHEMA e) ''audio'' of
        Inl err \<Rightarrow> (Inl err, VDict (AList.delete ''audio'' d))
      | Inr audio_config \<Rightarrow>
     (case validate_and_trim_config e (fragment d ''wled_preferences'') (WLED_CONFIG_SCHEMA e)
             ''wled_preferences'' of
        Inl err \<Rightarrow> (Inl err, VDict (AList.delete ''wled_preferences'' (AList.delete ''audio'' d)))
      | Inr wled_config \<Rightarrow>
     (case validate_and_trim_config e (fragment d ''melbanks'') (MELBANKS_CONFIG_SCHEMA e)
             ''melbanks'' of
        Inl err \<Rightarrow> (Inl err, VDict (residual d))
      | Inr melbanks_config \<Rightarrow>
     (case validate_and_trim_config e (VDict (residual d)) (CORE_CONFIG_SCHEMA e) ''core'' of
        Inl err \<Rightarrow> (Inl err, VDict (residual d))
      | Inr core_config \<Rightarrow>
          (Inr (audio_config, wled_config, melbanks_config, core_config),
           VDict (residual d)))))))"
  by (simp add: validate_fragments_def py_pop_dict fragment_delete residual_def
      split: sum.splits)

text \<open>
  C1. Take the four validations of a submitted dict in the order of the source: the audio
  fragment (through both audio schemas), the wled\_preferences fragment, the melbanks
  fragment and the rest as core. If any of them raises, \<open>update_config\<close> raises the
  exception of the first one that does, and the service object (the live configuration
  and the calls made) is the one it was given: no fragment has been merged.
\<close>

theorem update_config_validation_atomic:
  assumes "A = (case validate_and_trim_config e (fragment d ''audio'') (AUDIO_CONFIG_SCHEMA e)
                       ''audio'' of
                  Inl err \<Rightarrow> Inl err
                | Inr audio1 \<Rightarrow>
                    validate_and_trim_config e (VDict audio1) (ANALYSIS_CONFIG_SCHEMA e) ''audio'')"
    and "W = validate_and_trim_config e (fragment d ''wled_preferences'') (WLED_CONFIG_SCHEMA e)
               ''wled_preferences''"
    and "M = validate_and_trim_config e (fragment d ''melbanks'') (MELBANKS_CONFIG_SCHEMA e)
               ''melbanks''"
    and "C = validate_and_trim_config e (VDict (residual d)) (CORE_CONFIG_SCHEMA e) ''core''"
    and "isl A \<or> isl W \<or> isl M \<or> isl C"
  shows "fst (update_config e st (VDict d))
           = Inl (if isl A then projl A else if isl W then projl W
                  else if isl M then projl M else projl C)
         \<and> fst (snd (update_config e st (VDict d))) = st"
  using assms
  by (auto simp: update_config_def validate_fragments_dict split: sum.splits)

theorem update_config_validation_atomic_witness:
  "fst (update_config example_env example_ledfx
          (VDict [(''audio'', VDict [(''min_volume'', VFloat 0.3)]), (''bogus'', VInt 1)]))
     = Inl (KeyError (unknown_key_message ''core'' ''bogus''))
   \<and> fst (snd (update_config example_env example_ledfx
          (VDict [(''audio'', VDict [(''min_volume'', VFloat 0.3)]), (''bogus'', VInt 1)])))
     = example_ledfx"
proof -
  let ?d = "[(''audio'', VDict [(''min_volume'', VFloat 0.3)]), (''bogus'', VInt 1)]"
  have a1: "validate_and_trim_config example_env (fragment ?d ''audio'')
      (AUDIO_CONFIG_SCHEMA example_env) ''audio'' = Inr [(''min_volume'', VFloat 0.3)]"
    by (simp add: run_defs example_defs)
  have a2: "validate_and_trim_config example_env (VDict [(''min_volume'', VFloat 0.3)])
      (ANALYSIS_CONFIG_SCHEMA example_env) ''audio'' = Inr [(''min_volume'', VFloat 0.3)]"
    by (simp add: run_defs example_defs)
  have w: "validate_and_trim_config example_env (fragment ?d ''wled_preferences'')
      (WLED_CONFIG_SCHEMA example_env) ''wled_preferences'' = Inr []"
    by (simp add: run_defs example_defs)
  have m: "validate_and_trim_config example_env (fragment ?d ''melbanks'')
      (MELBANKS_CONFIG_SCHEMA example_env) ''melbanks'' = Inr []"
    by (simp add: run_defs example_defs)
  have c: "validate_and_trim_config example_env (VDict (residual ?d))
      (CORE_CONFIG_SCHEMA example_env) ''core''
        = Inl (KeyError (unknown_key_message ''core'' ''bogus''))"
    by (simp add: run_defs example_defs)
  from update_config_validation_atomic[OF refl refl refl refl, of example_env ?d example_ledfx]
  show ?thesis
    by (simp add: a1 a2 w m c)
qed

section \<open>update\_config: what a successful call leaves behind\<close>

lemma notify_config: "config (snd (notify st a m c cfg)) = config st"
  by (auto simp: notify_def fire_def split: sum.splits if_splits)

lemma notify_Inr:
  "fst (notify st a m c cfg) = Inr r \<Longrightarrow> r = VNone"
  by (auto simp: notify_def split: sum.splits if_splits)

lemma apply_fragments_Inr:
  "fst (apply_fragments st a w m c cfg) = Inr r \<Longrightarrow> r = VNone"
  by (auto simp: apply_fragments_def split: sum.splits option.splits prod.splits dest: notify_Inr)

lemma update_config_success:
  assumes "update_config e st (VDict d) = (Inr r, st', cfg')"
  shows "\<exists>a w m c. validate_fragments e (VDict d) = (Inr (a, w, m, c), VDict (residual d))
           \<and> validate_and_trim_config e (VDict (residual d)) (CORE_CONFIG_SCHEMA e) ''core'' = Inr c
           \<and> apply_fragments st a w m c (VDict (residual d)) = (Inr r, st')
           \<and> cfg' = VDict (residual d)"
  using assms
  by (auto simp: update_config_def validate_fragments_dict split: sum.splits prod.splits)


lemma residual_keys:
  "fst ` set (residual d) = fst ` set d - {''audio'', ''wled_preferences'', ''melbanks''}"
  by (auto simp: residual_def AList.delete_eq)

lemma residual_lookup:
  "map_of (residual d) k =
     (if k \<in> {''audio'', ''wled_preferences'', ''melbanks''} then None else map_of d k)"
  by (simp add: residual_def AList.delete_conv')

lemma notify_calls:
  assumes "fst (notify st a m c cfg) = Inr r"
  shows "\<exists>av mv. calls (snd (notify st a m c cfg)) =
           calls st @ (if audio st = IsObject \<and> a \<noteq> [] then [AudioUpdateConfig av] else [])
             @ (if audio st \<noteq> NoAttribute \<and> m \<noteq> [] then [MelbanksUpdateConfig mv] else [])
             @ (if c \<noteq> [] then [FireEvent cfg] else [])"
  using assms
  by (auto simp: notify_def fire_def split: sum.splits if_splits)

lemma apply_fragments_calls:
  assumes "fst (apply_fragments st a w m c cfg) = Inr r"
  shows "\<exists>av mv. calls (snd (apply_fragments st a w m c cfg)) =
           calls st @ (if audio st = IsObject \<and> a \<noteq> [] then [AudioUpdateConfig av] else [])
             @ (if audio st \<noteq> NoAttribute \<and> m \<noteq> [] then [MelbanksUpdateConfig mv] else [])
             @ (if c \<noteq> [] then [FireEvent cfg] else [])"
proof -
  from assms obtain c4 where
    eq: "apply_fragments st a w m c cfg = notify (st\<lparr>config := c4\<rparr>) a m c cfg"
    by (auto simp: apply_fragments_def split: sum.splits option.splits prod.splits)
  with assms have "fst (notify (st\<lparr>config := c4\<rparr>) a m c cfg) = Inr r" by simp
  from notify_calls[OF this] show ?thesis unfolding eq by simp
qed

lemma example_fragments_run:
  "validate_fragments example_env
     (VDict [(''global_brightness'', VFloat 0.8),
           (''audio'', VDict [(''min_volume'', VFloat 0.3)]),
           (''wled_preferences'', VDict [(''dev1'', VDict [(''timeout'', VInt 5)])])])
   = (Inr ([(''min_volume'', VFloat 0.3)], [(''dev1'', VDict [(''timeout'', VInt 5)])], [],
           [(''global_brightness'', VFloat 0.8)]),
      VDict [(''global_brightness'', VFloat 0.8)])"
  by (simp add: validate_fragments_def run_defs example_defs)

lemma example_update_run:
  "update_config example_env example_ledfx
     (VDict [(''global_brightness'', VFloat 0.8),
           (''audio'', VDict [(''min_volume'', VFloat 0.3)]),
           (''wled_preferences'', VDict [(''dev1'', VDict [(''timeout'', VInt 5)])])])
   = (Inr VNone,
      \<lparr> config =
         VDict [(''host'', VStr ''0.0.0.0''), (''port'', VInt 8888),
                (''global_brightness'', VFloat 0.8),
                (''audio'', VDict [(''min_volume'', VFloat 0.3), (''delay_ms'', VInt 0)]),
                (''melbanks'', VDict [(''max_frequencies'', VList [VInt 350, VInt 2000])]),
                (''wled_preferences'',
                   VDict [(''dev1'', VDict [(''ip'', VStr ''1.2.3.4''), (''timeout'', VInt 5)])])],
         config_dir = ''/home/user/.ledfx'',
         audio = IsObject,
         calls = [AudioUpdateConfig (VDict [(''min_volume'', VFloat 0.3), (''delay_ms'', VInt 0)]),
                  FireEvent (VDict [(''global_brightness'', VFloat 0.8)])] \<rparr>,
      VDict [(''global_brightness'', VFloat 0.8)])"
  unfolding update_config_def example_fragments_run
  by (simp add: apply_fragments_def update_item_def wled_step_def notify_def fire_def
      py_getitem_def py_setitem_def py_update_def example_ledfx_def VDict_def skeys_def
      key_eq_def)


text \<open>
  A wled\_preferences value that is a list of pairs is merged as well, also when a key of a
  pair is not a string.
\<close>

lemma example_pairs_run:
  "update_config example_env example_ledfx
     (VDict [(''wled_preferences'',
        VDict [(''dev1'', VList [VList [VStr ''timeout'', VInt 5], VList [VInt 1, VBool True]])])])
   = (Inr VNone,
      example_ledfx\<lparr>config :=
         VDict [(''host'', VStr ''0.0.0.0''), (''port'', VInt 8888),
                (''global_brightness'', VFloat 0.5),
                (''audio'', VDict [(''min_volume'', VFloat 0.2), (''delay_ms'', VInt 0)]),
                (''melbanks'', VDict [(''max_frequencies'', VList [VInt 350, VInt 2000])]),
                (''wled_preferences'',
                   VDict [(''dev1'', VMap [(VStr ''ip'', VStr ''1.2.3.4''),
                                           (VStr ''timeout'', VInt 5), (VInt 1, VBool True)])])]\<rparr>,
      VDict [])"
  by (simp add: update_config_def validate_fragments_def run_defs example_defs
      apply_fragments_def update_item_def wled_step_def notify_def fire_def)

lemma example_pairs_put:
  "fst (put example_env example_ledfx
     (Inr (VDict [(''wled_preferences'',
        VDict [(''dev1'', VList [VList [VStr ''timeout'', VInt 5], VList [VInt 1, VBool True]])])])))
   = RequestSuccess (Some ''success'') (Some ''Configuration Updated'')"
proof -
  have "fst (put_body example_env example_ledfx
     (VDict [(''wled_preferences'',
        VDict [(''dev1'', VList [VList [VStr ''timeout'', VInt 5], VList [VInt 1, VBool True]])])]))
   = Inr (RequestSuccess (Some ''success'') (Some ''Configuration Updated''))"
    unfolding put_body_def example_pairs_run
    by (simp add: check_need_restart_def run_defs example_defs fire_def)
  then show ?thesis
    by (auto simp: put_def split: prod.splits)
qed

lemma example_residual:
  "residual [(''global_brightness'', VFloat 0.8),
           (''audio'', VDict [(''min_volume'', VFloat 0.3)]),
           (''wled_preferences'', VDict [(''dev1'', VDict [(''timeout'', VInt 5)])])]
   = [(''global_brightness'', VFloat 0.8)]"
  by (simp add: residual_def AList.delete_eq)

lemma example_need_restart:
  "check_need_restart example_env (VDict [(''global_brightness'', VFloat 0.8)]) = Inr False"
  by (simp add: check_need_restart_def run_defs example_defs)

text \<open>
  C10. A successful \<open>update_config\<close> leaves the caller's dict without its \<open>audio\<close>,
  \<open>wled_preferences\<close> and \<open>melbanks\<close> keys. In the PUT handler the event fired after
  \<open>update_config\<close> carries that residual dict, and the restart decision is
  \<open>check_need_restart\<close> of that residual dict, which does not raise.
\<close>

theorem update_config_pops_caller_mapping:
  assumes "update_config e st (VDict d) = (Inr r, st', cfg')"
  shows "cfg' = VDict (residual d)
     \<and> fst ` set (residual d) = fst ` set d - {''audio'', ''wled_preferences'', ''melbanks''}
     \<and> \<not> isl (check_need_restart e (VDict (residual d)))
     \<and> calls (snd (put e st (Inr (VDict d))))
          = calls st' @ [FireEvent (VDict (residual d)),
                         SaveConfig (config st') (config_dir st')]
              @ (if save_config e (config st') (config_dir st') = None
                    \<and> projr (check_need_restart e (VDict (residual d)))
                 then [CallSoonStop 4] else [])
     \<and> fst (put e st (Inr (VDict d)))
          = (case save_config e (config st') (config_dir st') of
               Some err \<Rightarrow> put_except err
             | None \<Rightarrow>
                 RequestSuccess (Some ''success'')
                   (Some (if projr (check_need_restart e (VDict (residual d)))
                          then ''LedFx is restarting to apply the new configuration''
                          else ''Configuration Updated'')))"
proof -
  from update_config_success[OF assms] obtain a w m c where
    core: "validate_and_trim_config e (VDict (residual d)) (CORE_CONFIG_SCHEMA e) ''core'' = Inr c"
    and cfg': "cfg' = VDict (residual d)" by blast
  from core have "\<exists>need. check_need_restart e (VDict (residual d)) = Inr need"
    by (auto simp: check_need_restart_def)
  then obtain need where need: "check_need_restart e (VDict (residual d)) = Inr need" ..
  have "calls (snd (put e st (Inr (VDict d))))
          = calls st' @ [FireEvent (VDict (residual d)),
                         SaveConfig (config st') (config_dir st')]
              @ (if save_config e (config st') (config_dir st') = None \<and> need
                 then [CallSoonStop 4] else [])"
    using assms need cfg'
    by (auto simp: put_def put_body_def fire_def Let_def split: option.splits)
  moreover have "fst (put e st (Inr (VDict d)))
          = (case save_config e (config st') (config_dir st') of
               Some err \<Rightarrow> put_except err
             | None \<Rightarrow>
                 RequestSuccess (Some ''success'')
                   (Some (if need then ''LedFx is restarting to apply the new configuration''
                          else ''Configuration Updated'')))"
    using assms need cfg'
    by (auto simp: put_def put_body_def fire_def Let_def split: option.splits)
  ultimately show ?thesis using cfg' residual_keys[of d] by (simp add: need)
qed

theorem update_config_pops_caller_mapping_witness:
  "snd (snd (update_config example_env example_ledfx
     (VDict [(''global_brightness'', VFloat 0.8),
           (''audio'', VDict [(''min_volume'', VFloat 0.3)]),
           (''wled_preferences'', VDict [(''dev1'', VDict [(''timeout'', VInt 5)])])])))
     = VDict [(''global_brightness'', VFloat 0.8)]
   \<and> fst (put example_env example_ledfx
     (Inr (VDict [(''global_brightness'', VFloat 0.8),
           (''audio'', VDict [(''min_volume'', VFloat 0.3)]),
           (''wled_preferences'', VDict [(''dev1'', VDict [(''timeout'', VInt 5)])])])))
     = RequestSuccess (Some ''success'') (Some ''Configuration Updated'')
   \<and> (\<exists>saved. calls (snd (put example_env example_ledfx
     (Inr (VDict [(''global_brightness'', VFloat 0.8),
           (''audio'', VDict [(''min_volume'', VFloat 0.3)]),
           (''wled_preferences'', VDict [(''dev1'', VDict [(''timeout'', VInt 5)])])]))))
     = [AudioUpdateConfig (VDict [(''min_volume'', VFloat 0.3), (''delay_ms'', VInt 0)]),
        FireEvent (VDict [(''global_brightness'', VFloat 0.8)]),
        FireEvent (VDict [(''global_brightness'', VFloat 0.8)]),
        SaveConfig saved ''/home/user/.ledfx''])"
proof -
  have save: "save_config example_env = (\<lambda>cfg dir. None)"
    by (simp add: example_env_def)
  from update_config_pops_caller_mapping[OF example_update_run] example_need_restart
  show ?thesis
    unfolding example_residual example_update_run
    by (simp add: save)
qed

lemma put_after_update:
  assumes "update_config e st cfg = (Inr r, st', cfg')"
  shows "calls (snd (put e st (Inr cfg)))
          = calls st' @ [FireEvent cfg', SaveConfig (config st') (config_dir st')]
              @ (if save_config e (config st') (config_dir st') = None
                    \<and> check_need_restart e cfg' = Inr True
                 then [CallSoonStop 4] else [])"
  using assms
  by (auto simp: put_def put_body_def fire_def Let_def split: option.splits sum.splits)

text \<open>
  C8, as the code has it. A successful \<open>update_config\<close> returns None. What it tells the
  rest of the service about the fragments is in the calls it makes: the audio source is
  told when it exists and the validated audio fragment is not empty, the melbanks when the
  attribute exists and the validated melbanks fragment is not empty, and a config-update
  event with the residual dict is fired when the validated core fragment is not empty.
  The PUT handler, which makes the call, then fires its own event with the residual dict
  and saves the live configuration, whatever the fragments were, and schedules the stop
  when the save went through and \<open>check_need_restart\<close> of the residual dict is True.
\<close>

theorem update_config_returns_none:
  assumes "validate_fragments e cfg = (Inr (a, w, m, c), cfg')"
    and "fst (update_config e st cfg) = Inr r"
  shows "r = VNone
     \<and> snd (snd (update_config e st cfg)) = cfg'
     \<and> (\<exists>av mv. calls (fst (snd (update_config e st cfg))) =
           calls st @ (if audio st = IsObject \<and> a \<noteq> [] then [AudioUpdateConfig av] else [])
             @ (if audio st \<noteq> NoAttribute \<and> m \<noteq> [] then [MelbanksUpdateConfig mv] else [])
             @ (if c \<noteq> [] then [FireEvent cfg'] else []))
     \<and> (\<exists>st'. st' = fst (snd (update_config e st cfg))
          \<and> calls (snd (put e st (Inr cfg)))
              = calls st' @ [FireEvent cfg', SaveConfig (config st') (config_dir st')]
                  @ (if save_config e (config st') (config_dir st') = None
                        \<and> check_need_restart e cfg' = Inr True
                     then [CallSoonStop 4] else []))"
proof -
  have uc: "update_config e st cfg =
      (fst (apply_fragments st a w m c cfg'), snd (apply_fragments st a w m c cfg'), cfg')"
    using assms(1) by (simp add: update_config_def split: prod.splits)
  with assms(2) have ok: "fst (apply_fragments st a w m c cfg') = Inr r" by simp
  have run: "update_config e st cfg = (Inr r, snd (apply_fragments st a w m c cfg'), cfg')"
    using uc ok by simp
  have p: "calls (snd (put e st (Inr cfg)))
              = calls (snd (apply_fragments st a w m c cfg'))
                  @ [FireEvent cfg', SaveConfig (config (snd (apply_fragments st a w m c cfg')))
                       (config_dir (snd (apply_fragments st a w m c cfg')))]
                  @ (if save_config e (config (snd (apply_fragments st a w m c cfg')))
                          (config_dir (snd (apply_fragments st a w m c cfg'))) = None
                        \<and> check_need_restart e cfg' = Inr True
                     then [CallSoonStop 4] else [])"
    by (rule put_after_update[OF run])
  from apply_fragments_Inr[OF ok] apply_fragments_calls[OF ok] p show ?thesis
    unfolding uc by simp
qed

theorem update_config_returns_none_witness:
  "fst (update_config example_env example_ledfx
     (VDict [(''global_brightness'', VFloat 0.8),
           (''audio'', VDict [(''min_volume'', VFloat 0.3)]),
           (''wled_preferences'', VDict [(''dev1'', VDict [(''timeout'', VInt 5)])])])) = Inr VNone
   \<and> (\<exists>av. calls (fst (snd (update_config example_env example_ledfx
     (VDict [(''global_brightness'', VFloat 0.8),
           (''audio'', VDict [(''min_volume'', VFloat 0.3)]),
           (''wled_preferences'', VDict [(''dev1'', VDict [(''timeout'', VInt 5)])])]))))
      = [AudioUpdateConfig av, FireEvent (VDict [(''global_brightness'', VFloat 0.8)])])
   \<and> (\<exists>av saved. calls (snd (put example_env example_ledfx
     (Inr (VDict [(''global_brightness'', VFloat 0.8),
           (''audio'', VDict [(''min_volume'', VFloat 0.3)]),
           (''wled_preferences'', VDict [(''dev1'', VDict [(''timeout'', VInt 5)])])]))))
      = [AudioUpdateConfig av, FireEvent (VDict [(''global_brightness'', VFloat 0.8)]),
         FireEvent (VDict [(''global_brightness'', VFloat 0.8)]),
         SaveConfig saved ''/home/user/.ledfx''])"
proof -
  have ok: "fst (update_config example_env example_ledfx
     (VDict [(''global_brightness'', VFloat 0.8),
           (''audio'', VDict [(''min_volume'', VFloat 0.3)]),
           (''wled_preferences'', VDict [(''dev1'', VDict [(''timeout'', VInt 5)])])])) = Inr VNone"
    unfolding example_update_run by simp
  have save: "save_config example_env = (\<lambda>cfg dir. None)"
    by (simp add: example_env_def)
  from update_config_returns_none[OF example_fragments_run ok] example_need_restart
  show ?thesis
    unfolding example_update_run by (simp add: example_ledfx_def save)
qed

text \<open>
  C8 as stated fails: on an update that brings a non-empty audio, wled\_preferences and core
  fragment, the function returns None, not these three namespaces.
\<close>

theorem update_config_return_value_counterexample:
  "fst (validate_fragments example_env
     (VDict [(''global_brightness'', VFloat 0.8),
           (''audio'', VDict [(''min_volume'', VFloat 0.3)]),
           (''wled_preferences'', VDict [(''dev1'', VDict [(''timeout'', VInt 5)])])]))
     = Inr ([(''min_volume'', VFloat 0.3)], [(''dev1'', VDict [(''timeout'', VInt 5)])], [],
           [(''global_brightness'', VFloat 0.8)])
   \<and> changed_namespaces
        ([(''min_volume'', VFloat 0.3)], [(''dev1'', VDict [(''timeout'', VInt 5)])], [],
           [(''global_brightness'', VFloat 0.8)])
     = [''audio'', ''wled_preferences'', ''core'']
   \<and> fst (update_config example_env example_ledfx
     (VDict [(''global_brightness'', VFloat 0.8),
           (''audio'', VDict [(''min_volume'', VFloat 0.3)]),
           (''wled_preferences'', VDict [(''dev1'', VDict [(''timeout'', VInt 5)])])])) = Inr VNone
   \<and> VNone \<noteq> VList (map VStr [''audio'', ''wled_preferences'', ''core''])"
  unfolding example_update_run example_fragments_run
  by (simp add: changed_namespaces_def)

section \<open>The import and the reset\<close>

lemma VDict_Nil: "VDict [] = VMap []"
  by (simp add: VDict_def skeys_def)

lemma post_commit_success:
  assumes "post_commit e st cfg = (Inr resp, st')"
  shows "resp = RequestSuccess None None
     \<and> calls st' = calls st @ [CreateBackup (config_dir st) ''IMPORT'', ConfigAssigned (config st'),
                               SaveConfig (config st') (config_dir st), CallSoonStop 4]"
  using assms
  by (simp add: post_commit_def fire_def Let_def split: option.splits sum.splits prod.splits)
     auto

lemma post_except_success: "post_except err \<noteq> Inr (RequestSuccess t msg)"
  by (cases err) simp_all

lemma post_body_success:
  assumes "post_body e st cfg = (Inr (RequestSuccess t msg), st')"
  shows "\<exists>cfg'. post_commit e st cfg' = (Inr (RequestSuccess t msg), st')"
  using assms
  by (auto simp: post_body_def split: sum.splits if_splits)

lemma example_delete_run:
  "delete example_env example_ledfx =
     (Inr (RequestSuccess (Some ''success'')
             (Some ''Config reset to default values, LedFx restarting.'')),
      \<lparr> config = VDict [(''host'', VStr ''0.0.0.0''), (''port'', VInt 8888)],
        config_dir = ''/home/user/.ledfx'',
        audio = IsObject,
        calls = [CreateBackup ''/home/user/.ledfx'' ''DELETE'',
                 ConfigAssigned (VDict [(''host'', VStr ''0.0.0.0''), (''port'', VInt 8888)]),
                 SaveConfig (VDict [(''host'', VStr ''0.0.0.0''), (''port'', VInt 8888)])
                   ''/home/user/.ledfx'',
                 CallSoonStop 4] \<rparr>)"
  by (simp add: delete_def fire_def Let_def run_defs example_defs)

lemma example_post_run:
  "post example_env example_ledfx
     (Inr (VDict [(''configuration_version'', VStr ''2.2.0''), (''port'', VInt 80),
                  (''audio'', VDict [(''delay_ms'', VInt 10)])])) =
     (Inr (RequestSuccess None None),
      \<lparr> config = VDict [(''host'', VStr ''0.0.0.0''), (''port'', VInt 80),
                         (''configuration_version'', VStr ''2.2.0''),
                         (''audio'', VDict [(''min_volume'', VFloat 0.2), (''delay_ms'', VInt 10)]),
                         (''wled_preferences'', VDict []),
                         (''melbanks'', VDict [(''max_frequencies'', VList [VInt 350, VInt 2000])])],
        config_dir = ''/home/user/.ledfx'',
        audio = IsObject,
        calls = [CreateBackup ''/home/user/.ledfx'' ''IMPORT'',
                 ConfigAssigned
                   (VDict [(''host'', VStr ''0.0.0.0''), (''port'', VInt 80),
                         (''configuration_version'', VStr ''2.2.0''),
                         (''audio'', VDict [(''min_volume'', VFloat 0.2), (''delay_ms'', VInt 10)]),
                         (''wled_preferences'', VDict []),
                         (''melbanks'', VDict [(''max_frequencies'', VList [VInt 350, VInt 2000])])]),
                 SaveConfig
                   (VDict [(''host'', VStr ''0.0.0.0''), (''port'', VInt 80),
                         (''configuration_version'', VStr ''2.2.0''),
                         (''audio'', VDict [(''min_volume'', VFloat 0.2), (''delay_ms'', VInt 10)]),
                         (''wled_preferences'', VDict []),
                         (''melbanks'', VDict [(''max_frequencies'', VList [VInt 350, VInt 2000])])])
                   ''/home/user/.ledfx'',
                 CallSoonStop 4] \<rparr>)"
  by (simp add: post_def post_body_def check_version_def post_commit_def fire_def Let_def
      run_defs example_defs)

text \<open>
  C6. In the POST handler, when the imported dict has no \<open>configuration_version\<close>, or
  has one that parses to another version than the current one, and \<open>migrate_config\<close>
  raises, the request ends with the internal error that carries the migration message and
  the exception; the service object is the one the handler was given: no backup was made,
  the live configuration was not replaced and nothing was saved.
\<close>

theorem post_migration_failure:
  assumes "map_of d ''configuration_version'' = None
           \<or> (\<exists>v imported current. map_of d ''configuration_version'' = Some v
                 \<and> parse_version e v = Inr imported
                 \<and> parse_version e (CONFIGURATION_VERSION e) = Inr current
                 \<and> imported \<noteq> current)"
    and "migrate_config e (VDict d) = Inl err"
  shows "post e st (Inr (VDict d))
           = (Inr (InternalError ''Failed to migrate import config to the new standard: '' err
                     (Some ''error'')), st)"
proof -
  from assms(1) have "\<exists>x. check_version e (VDict d) = Inl x \<and> version_except x"
    by (auto simp: check_version_def py_getitem_VDict)
  then obtain x where "check_version e (VDict d) = Inl x" and "version_except x" by blast
  with assms(2) show ?thesis
    by (simp add: post_def post_body_def)
qed

theorem post_migration_failure_witness:
  "post example_env example_ledfx (Inr (VDict [(''configuration_version'', VStr ''2.0.0'')]))
     = (Inr (InternalError ''Failed to migrate import config to the new standard: ''
               (OtherError ''no migration for this version'') (Some ''error'')), example_ledfx)
   \<and> post example_env example_ledfx (Inr (VDict [(''port'', VInt 80)]))
     = (Inr (InternalError ''Failed to migrate import config to the new standard: ''
               (OtherError ''no migration for this version'') (Some ''error'')), example_ledfx)"
proof -
  have v: "parse_version example_env (VStr ''2.0.0'') = Inr (map of_char ''2.0.0'')"
    "parse_version example_env (CONFIGURATION_VERSION example_env) = Inr (map of_char ''2.2.0'')"
    by (simp_all add: example_env_def example_parse_version_def)
  have ne: "(map of_char ''2.0.0'' :: int list) \<noteq> map of_char ''2.2.0''" by simp
  have m1: "migrate_config example_env (VDict [(''configuration_version'', VStr ''2.0.0'')])
      = Inl (OtherError ''no migration for this version'')"
    by (simp add: run_defs example_defs)
  have m2: "migrate_config example_env (VDict [(''port'', VInt 80)])
      = Inl (OtherError ''no migration for this version'')"
    by (simp add: run_defs example_defs)
  have "post example_env example_ledfx (Inr (VDict [(''configuration_version'', VStr ''2.0.0'')]))
     = (Inr (InternalError ''Failed to migrate import config to the new standard: ''
               (OtherError ''no migration for this version'') (Some ''error'')), example_ledfx)"
    using post_migration_failure[of "[(''configuration_version'', VStr ''2.0.0'')]" example_env
        "OtherError ''no migration for this version''" example_ledfx] v ne m1 by simp
  moreover have "post example_env example_ledfx (Inr (VDict [(''port'', VInt 80)]))
     = (Inr (InternalError ''Failed to migrate import config to the new standard: ''
               (OtherError ''no migration for this version'') (Some ''error'')), example_ledfx)"
    using post_migration_failure[of "[(''port'', VInt 80)]" example_env
        "OtherError ''no migration for this version''" example_ledfx] m2 by simp
  ultimately show ?thesis by simp
qed

text \<open>
  C7. When the DELETE handler returns a response, it has made exactly four calls, in this
  order: one backup with reason DELETE, the assignment of the live configuration, the save
  and the stop; the configuration assigned is the core schema applied to the empty dict.
  When the POST handler returns success, it has made exactly four calls, in this order: one
  backup with reason IMPORT, the assignment of the live configuration, the save and the
  stop.
\<close>

theorem backup_before_replace:
  "(delete e st = (Inr resp, st') \<longrightarrow>
      CORE_CONFIG_SCHEMA e (VDict []) = Inr (config st')
      \<and> calls st' = calls st @ [CreateBackup (config_dir st) ''DELETE'', ConfigAssigned (config st'),
                                SaveConfig (config st') (config_dir st), CallSoonStop 4])
   \<and> (post e st request_json = (Inr (RequestSuccess t msg), st') \<longrightarrow>
      calls st' = calls st @ [CreateBackup (config_dir st) ''IMPORT'', ConfigAssigned (config st'),
                              SaveConfig (config st') (config_dir st), CallSoonStop 4])"
proof (rule conjI; rule impI)
  assume "delete e st = (Inr resp, st')"
  then show "CORE_CONFIG_SCHEMA e (VDict []) = Inr (config st')
      \<and> calls st' = calls st @ [CreateBackup (config_dir st) ''DELETE'', ConfigAssigned (config st'),
                                SaveConfig (config st') (config_dir st), CallSoonStop 4]"
    by (auto simp: delete_def fire_def Let_def VDict_Nil split: option.splits sum.splits)
next
  assume a: "post e st request_json = (Inr (RequestSuccess t msg), st')"
  then obtain cfg where "post_body e st cfg = (Inr (RequestSuccess t msg), st')"
    by (auto simp: post_def post_except_success split: sum.splits prod.splits)
  from post_body_success[OF this] obtain cfg' where
    "post_commit e st cfg' = (Inr (RequestSuccess t msg), st')" ..
  from post_commit_success[OF this]
  show "calls st' = calls st @ [CreateBackup (config_dir st) ''IMPORT'', ConfigAssigned (config st'),
                              SaveConfig (config st') (config_dir st), CallSoonStop 4]"
    by simp
qed

theorem backup_before_replace_witness:
  "calls (snd (delete example_env example_ledfx))
     = [CreateBackup ''/home/user/.ledfx'' ''DELETE'',
        ConfigAssigned (VDict [(''host'', VStr ''0.0.0.0''), (''port'', VInt 8888)]),
        SaveConfig (VDict [(''host'', VStr ''0.0.0.0''), (''port'', VInt 8888)])
          ''/home/user/.ledfx'',
        CallSoonStop 4]
   \<and> CORE_CONFIG_SCHEMA example_env (VDict [])
     = Inr (VDict [(''host'', VStr ''0.0.0.0''), (''port'', VInt 8888)])
   \<and> (\<exists>imported. calls (snd (post example_env example_ledfx
     (Inr (VDict [(''configuration_version'', VStr ''2.2.0''), (''port'', VInt 80),
                  (''audio'', VDict [(''delay_ms'', VInt 10)])]))))
     = [CreateBackup ''/home/user/.ledfx'' ''IMPORT'', ConfigAssigned imported,
        SaveConfig imported ''/home/user/.ledfx'', CallSoonStop 4])"
proof -
  note del = backup_before_replace[THEN conjunct1, rule_format, OF example_delete_run]
  note imp = backup_before_replace[THEN conjunct2, rule_format, OF example_post_run]
  from del imp show ?thesis
    unfolding example_delete_run example_post_run
    by (simp add: example_ledfx_def)
qed

section \<open>update\_config: the merge\<close>

lemma py_update_VDict: "py_update (VMap d) (VDict new) = (None, VMap (dict_update d (skeys new)))"
  by (simp add: py_update_def VDict_def)

lemma update_item_dict:
  assumes "map_of l (VStr k) = Some (VMap sub)"
  shows "update_item (VMap l) k fragm
           = Inr (VMap (AList.update (VStr k) (VMap (dict_update sub (skeys fragm))) l))"
  using assms by (simp add: update_item_def py_getitem_def py_update_VDict py_setitem_def)

lemma wled_step_dict:
  assumes "map_of l (VStr ''wled_preferences'') = Some (VMap p)"
  shows "wled_step (VMap l) key v =
     (case map_of p (VStr key) of
        Some old \<Rightarrow>
          (fst (py_update old v),
           VMap (AList.update (VStr ''wled_preferences'')
                   (VMap (AList.update (VStr key) (snd (py_update old v)) p)) l))
      | None \<Rightarrow>
          (None, VMap (AList.update (VStr ''wled_preferences'')
                         (VMap (AList.update (VStr key) v p)) l)))"
  using assms
  by (simp add: wled_step_def split: option.splits prod.splits)

lemma merge_wled_ok:
  assumes "map_of l (VStr ''wled_preferences'') = Some (VMap p)"
    and "distinct (map fst w)"
    and "\<And>k v old. map_of w k = Some v \<Longrightarrow> map_of p (VStr k) = Some old
           \<Longrightarrow> fst (py_update old v) = None"
  shows "\<exists>l' p'. merge_wled (VMap l) w = (None, VMap l')
           \<and> map_of l' (VStr ''wled_preferences'') = Some (VMap p')
           \<and> (\<forall>x. x \<noteq> VStr ''wled_preferences'' \<longrightarrow> map_of l' x = map_of l x)
           \<and> (\<forall>k. map_of p' k = two_level_merge p w k)"
  using assms
proof (induction w arbitrary: l p)
  case Nil
  have "merge_wled (VMap l) [] = (None, VMap l)" by simp
  moreover have "\<forall>k. map_of p k = two_level_merge p [] k"
    by (simp add: two_level_merge_def skeys_def)
  ultimately show ?case using Nil.prems(1) by blast
next
  case (Cons kv rest)
  obtain k0 v0 where kv: "kv = (k0, v0)" by (cases kv)
  from Cons.prems(2) kv have notin: "map_of (skeys rest) (VStr k0) = None"
    and dist: "distinct (map fst rest)"
    by (auto simp: map_of_skeys map_of_eq_None_iff)
  have "\<exists>new. two_level_merge p (kv # rest) (VStr k0) = Some new
          \<and> wled_step (VMap l) k0 v0
              = (None, VMap (AList.update (VStr ''wled_preferences'')
                               (VMap (AList.update (VStr k0) new p)) l))"
  proof (cases "map_of p (VStr k0)")
    case None
    then show ?thesis
      using kv by (simp add: wled_step_dict[OF Cons.prems(1)] two_level_merge_def skeys_Cons)
  next
    case (Some old)
    from Cons.prems(3)[of k0 v0 old] Some kv have "fst (py_update old v0) = None" by simp
    with Some show ?thesis
      using kv by (simp add: wled_step_dict[OF Cons.prems(1)] two_level_merge_def skeys_Cons)
  qed
  then obtain new where new: "two_level_merge p (kv # rest) (VStr k0) = Some new"
    and step: "wled_step (VMap l) k0 v0
              = (None, VMap (AList.update (VStr ''wled_preferences'')
                               (VMap (AList.update (VStr k0) new p)) l))"
    by blast
  let ?p1 = "AList.update (VStr k0) new p"
  let ?l1 = "AList.update (VStr ''wled_preferences'') (VMap ?p1) l"
  have l1: "map_of ?l1 (VStr ''wled_preferences'') = Some (VMap ?p1)"
    by (simp add: AList.update_conv')
  have pre: "fst (py_update old v) = None"
    if "map_of rest k = Some v" and "map_of ?p1 (VStr k) = Some old" for k v old
  proof -
    from that(1) notin have "k \<noteq> k0" by (auto simp: map_of_skeys)
    with that kv show ?thesis
      using Cons.prems(3)[of k v old] by (simp add: AList.update_conv')
  qed
  have "\<exists>l' p'. merge_wled (VMap ?l1) rest = (None, VMap l')
           \<and> map_of l' (VStr ''wled_preferences'') = Some (VMap p')
           \<and> (\<forall>x. x \<noteq> VStr ''wled_preferences'' \<longrightarrow> map_of l' x = map_of ?l1 x)
           \<and> (\<forall>k. map_of p' k = two_level_merge ?p1 rest k)"
  proof (rule Cons.IH[OF l1 dist])
    fix k v old
    assume "map_of rest k = Some v" and "map_of ?p1 (VStr k) = Some old"
    then show "fst (py_update old v) = None" by (rule pre)
  qed
  then obtain l' p' where
    run: "merge_wled (VMap ?l1) rest = (None, VMap l')"
    and w': "map_of l' (VStr ''wled_preferences'') = Some (VMap p')"
    and l': "\<forall>x. x \<noteq> VStr ''wled_preferences'' \<longrightarrow> map_of l' x = map_of ?l1 x"
    and p': "\<forall>k. map_of p' k = two_level_merge ?p1 rest k" by blast
  have "merge_wled (VMap l) (kv # rest) = (None, VMap l')"
    using kv step run by simp
  moreover have "\<forall>x. x \<noteq> VStr ''wled_preferences'' \<longrightarrow> map_of l' x = map_of l x"
    using l' by (simp add: AList.update_conv')
  moreover have "map_of p' k = two_level_merge p (kv # rest) k" for k
  proof (cases "k = VStr k0")
    case True
    have "two_level_merge ?p1 rest (VStr k0) = Some new"
      using notin by (simp add: two_level_merge_def AList.update_conv')
    with p' new True show ?thesis by simp
  next
    case False
    have e1: "map_of ?p1 k = map_of p k"
      using False by (simp add: AList.update_conv')
    have e2: "map_of (skeys (kv # rest)) k = map_of (skeys rest) k"
      using False kv by (simp add: skeys_Cons)
    have "two_level_merge ?p1 rest k = two_level_merge p (kv # rest) k"
      unfolding two_level_merge_def e1 e2 ..
    with p' show ?thesis by simp
  qed
  ultimately show ?case using w' by blast
qed

lemma validate_fragments_Inr:
  assumes "validate_fragments e (VDict d) = (Inr (a, w, m, c), cfg')"
  shows "distinct (map fst a) \<and> distinct (map fst w) \<and> distinct (map fst m)
     \<and> distinct (map fst c) \<and> fst ` set c = fst ` set (residual d)
     \<and> cfg' = VDict (residual d)"
proof -
  from assms obtain a1 where
    a: "validate_and_trim_config e (VDict a1) (ANALYSIS_CONFIG_SCHEMA e) ''audio'' = Inr a"
    and w: "validate_and_trim_config e (fragment d ''wled_preferences'') (WLED_CONFIG_SCHEMA e)
           ''wled_preferences'' = Inr w"
    and m: "validate_and_trim_config e (fragment d ''melbanks'') (MELBANKS_CONFIG_SCHEMA e)
           ''melbanks'' = Inr m"
    and c: "validate_and_trim_config e (VDict (residual d)) (CORE_CONFIG_SCHEMA e) ''core'' = Inr c"
    and cfg': "cfg' = VDict (residual d)"
    by (auto simp: validate_fragments_dict split: sum.splits)
  from validate_and_trim_config_Inr[OF a] have "distinct (map fst a)" by blast
  moreover from validate_and_trim_config_Inr[OF w] have "distinct (map fst w)" by blast
  moreover from validate_and_trim_config_Inr[OF m] have "distinct (map fst m)" by blast
  moreover from validate_and_trim_config_Inr[OF c] obtain f where
    "VDict (residual d) = VDict f" and "fst ` set c = fst ` set f" and "distinct (map fst c)"
    by blast
  then have "fst ` set c = fst ` set (residual d)" and "distinct (map fst c)"
    by (simp_all add: VDict_inject)
  ultimately show ?thesis using cfg' by simp
qed

lemma py_update_dict_ok: "fst (py_update (VMap d) (VMap d')) = None"
  by (simp add: py_update_def)

lemma py_update_no_dict: "(\<forall>d. old \<noteq> VMap d) \<Longrightarrow> py_update old v = (Some AttributeError, old)"
  by (cases old) (simp_all add: py_update_def)

text \<open>
  C5, as the code has it. Let the validations of a submitted dict succeed, let the live
  configuration be a dict whose \<open>audio\<close>, \<open>melbanks\<close> and \<open>wled_preferences\<close> entries are
  dicts, and let \<^verbatim>\<open>dict.update\<close> accept every submitted wled\_preferences value on the
  value that is live under the same key. Then, whatever the notifications do afterwards,
  the live configuration that \<open>update_config\<close> leaves is this: the audio and melbanks
  namespaces are the old ones overwritten by the validated fragments; every top-level key
  besides the three namespaces is the old one overwritten by the validated core fragment;
  in wled\_preferences a key the fragment does not have is unchanged, a key that was not
  live holds the submitted value, and a key that was live holds the old value updated
  with the submitted one. For two dicts with string keys that update is the old dict
  overwritten by the new one.
\<close>

theorem update_config_merge_policy:
  assumes val: "validate_fragments e (VDict d) = (Inr (a, w, m, c), cfg')"
    and live: "config st = VMap l"
    and la: "map_of l (VStr ''audio'') = Some (VMap la)"
    and lm: "map_of l (VStr ''melbanks'') = Some (VMap lm)"
    and lw: "map_of l (VStr ''wled_preferences'') = Some (VMap lw)"
    and nested: "\<forall>k v old. map_of w k = Some v \<and> map_of lw (VStr k) = Some old
                   \<longrightarrow> fst (py_update old v) = None"
  shows "\<exists>l' la' lm' lw'.
       config (fst (snd (update_config e st (VDict d)))) = VMap l'
     \<and> map_of l' (VStr ''audio'') = Some (VMap la')
     \<and> map_of la' = map_of la ++ map_of (skeys a)
     \<and> map_of l' (VStr ''melbanks'') = Some (VMap lm')
     \<and> map_of lm' = map_of lm ++ map_of (skeys m)
     \<and> (\<forall>k. k \<notin> {VStr ''audio'', VStr ''melbanks'', VStr ''wled_preferences''}
            \<longrightarrow> map_of l' k = (map_of l ++ map_of (skeys c)) k)
     \<and> map_of l' (VStr ''wled_preferences'') = Some (VMap lw')
     \<and> (\<forall>k. map_of lw' k =
            (case map_of (skeys w) k of
               None \<Rightarrow> map_of lw k
             | Some v \<Rightarrow>
                 (case map_of lw k of
                    None \<Rightarrow> Some v
                  | Some old \<Rightarrow> Some (snd (py_update old v)))))
     \<and> (\<forall>dold dv. distinct (map fst dv)
            \<longrightarrow> (\<exists>dnew. py_update (VDict dold) (VDict dv) = (None, VDict dnew)
                   \<and> map_of dnew = map_of dold ++ map_of dv))"
proof -
  from validate_fragments_Inr[OF val] have
    da: "distinct (map fst a)" and dw: "distinct (map fst w)" and dm: "distinct (map fst m)"
    and dc: "distinct (map fst c)" and kc: "fst ` set c = fst ` set (residual d)"
    by simp_all
  have c_none: "map_of (skeys c) (VStr ''audio'') = None"
    "map_of (skeys c) (VStr ''melbanks'') = None"
    "map_of (skeys c) (VStr ''wled_preferences'') = None"
    using kc residual_keys[of d] by (auto simp: map_of_skeys map_of_eq_None_iff)
  let ?l1 = "AList.update (VStr ''audio'') (VMap (dict_update la (skeys a))) l"
  let ?l2 = "AList.update (VStr ''melbanks'') (VMap (dict_update lm (skeys m))) ?l1"
  let ?l3 = "dict_update ?l2 (skeys c)"
  have s1: "update_item (config st) ''audio'' a = Inr (VMap ?l1)"
    using live la by (simp add: update_item_dict)
  have "map_of ?l1 (VStr ''melbanks'') = Some (VMap lm)"
    using lm by (simp add: AList.update_conv')
  then have s2: "update_item (VMap ?l1) ''melbanks'' m = Inr (VMap ?l2)"
    by (rule update_item_dict)
  have s3: "py_update (VMap ?l2) (VDict c) = (None, VMap ?l3)"
    by (rule py_update_VDict)
  have l3: "map_of ?l3 x = (case map_of (skeys c) x of Some v \<Rightarrow> Some v | None \<Rightarrow> map_of ?l2 x)"
    for x
    using dc by (rule dict_update_skeys_lookup)
  have l3w: "map_of ?l3 (VStr ''wled_preferences'') = Some (VMap lw)"
    using lw c_none by (simp add: l3 AList.update_conv')
  have pre: "fst (py_update old v) = None"
    if "map_of w k = Some v" and "map_of lw (VStr k) = Some old" for k v old
    using nested that by blast
  have "\<exists>l' p'. merge_wled (VMap ?l3) w = (None, VMap l')
           \<and> map_of l' (VStr ''wled_preferences'') = Some (VMap p')
           \<and> (\<forall>x. x \<noteq> VStr ''wled_preferences'' \<longrightarrow> map_of l' x = map_of ?l3 x)
           \<and> (\<forall>k. map_of p' k = two_level_merge lw w k)"
  proof (rule merge_wled_ok[OF l3w dw])
    fix k v old
    assume "map_of w k = Some v" and "map_of lw (VStr k) = Some old"
    then show "fst (py_update old v) = None" by (rule pre)
  qed
  then obtain l4 lw' where
    s4: "merge_wled (VMap ?l3) w = (None, VMap l4)"
    and l4w: "map_of l4 (VStr ''wled_preferences'') = Some (VMap lw')"
    and l4: "\<forall>x. x \<noteq> VStr ''wled_preferences'' \<longrightarrow> map_of l4 x = map_of ?l3 x"
    and lw': "\<forall>k. map_of lw' k = two_level_merge lw w k" by blast
  have ap: "apply_fragments st a w m c cfg' = notify (st\<lparr>config := VMap l4\<rparr>) a m c cfg'"
    by (simp add: apply_fragments_def s1 s2 s3 s4)
  have "update_config e st (VDict d)
      = (fst (apply_fragments st a w m c cfg'), snd (apply_fragments st a w m c cfg'), cfg')"
    using val by (simp add: update_config_def split: prod.splits)
  then have cfg: "config (fst (snd (update_config e st (VDict d)))) = VMap l4"
    by (simp add: ap notify_config)
  have audio: "map_of l4 (VStr ''audio'') = Some (VMap (dict_update la (skeys a)))"
    using l4 c_none by (simp add: l3 AList.update_conv')
  have mel: "map_of l4 (VStr ''melbanks'') = Some (VMap (dict_update lm (skeys m)))"
    using l4 c_none by (simp add: l3 AList.update_conv')
  have core: "\<forall>k. k \<notin> {VStr ''audio'', VStr ''melbanks'', VStr ''wled_preferences''}
            \<longrightarrow> map_of l4 k = (map_of l ++ map_of (skeys c)) k"
  proof (intro allI impI)
    fix k
    assume k: "k \<notin> {VStr ''audio'', VStr ''melbanks'', VStr ''wled_preferences''}"
    have "map_of ?l2 k = map_of l k"
      using k by (simp add: AList.update_conv')
    then show "map_of l4 k = (map_of l ++ map_of (skeys c)) k"
      using k l4 by (simp add: l3 map_add_def split: option.splits)
  qed
  have wled: "\<forall>k. map_of lw' k =
            (case map_of (skeys w) k of
               None \<Rightarrow> map_of lw k
             | Some v \<Rightarrow>
                 (case map_of lw k of
                    None \<Rightarrow> Some v
                  | Some old \<Rightarrow> Some (snd (py_update old v))))"
    using lw' unfolding two_level_merge_def .
  have upd: "\<forall>dold dv. distinct (map fst dv)
            \<longrightarrow> (\<exists>dnew. py_update (VDict dold) (VDict dv) = (None, VDict dnew)
                   \<and> map_of dnew = map_of dold ++ map_of dv)"
  proof (intro allI impI)
    fix dold dv :: dict
    assume dist: "distinct (map fst dv)"
    from dict_update_skeys_closed[of dold dv] dist obtain dnew where
      "dict_update (skeys dold) (skeys dv) = skeys dnew"
      and "map_of dnew = map_of dold ++ map_of dv" by blast
    then show "\<exists>dnew. py_update (VDict dold) (VDict dv) = (None, VDict dnew)
                   \<and> map_of dnew = map_of dold ++ map_of dv"
      by (auto simp: py_update_def VDict_def)
  qed
  have ma: "map_of (dict_update la (skeys a)) = map_of la ++ map_of (skeys a)"
    using da by (rule dict_update_skeys_conv)
  have mm: "map_of (dict_update lm (skeys m)) = map_of lm ++ map_of (skeys m)"
    using dm by (rule dict_update_skeys_conv)
  show ?thesis
    apply (rule exI[of _ l4], rule exI[of _ "dict_update la (skeys a)"],
           rule exI[of _ "dict_update lm (skeys m)"], rule exI[of _ lw'])
    apply (intro conjI)
    by (fact cfg audio ma mel mm core l4w wled upd)+
qed

theorem update_config_merge_policy_witness:
  "\<exists>l' la' lw'.
      config (fst (snd (update_config example_env example_ledfx
        (VDict [(''global_brightness'', VFloat 0.8),
           (''audio'', VDict [(''min_volume'', VFloat 0.3)]),
           (''wled_preferences'', VDict [(''dev1'', VDict [(''timeout'', VInt 5)])])])))) = VMap l'
    \<and> map_of l' (VStr ''global_brightness'') = Some (VFloat 0.8)
    \<and> map_of l' (VStr ''port'') = Some (VInt 8888)
    \<and> map_of l' (VStr ''audio'') = Some (VMap la')
    \<and> map_of la' (VStr ''min_volume'') = Some (VFloat 0.3)
    \<and> map_of la' (VStr ''delay_ms'') = Some (VInt 0)
    \<and> map_of l' (VStr ''wled_preferences'') = Some (VMap lw')
    \<and> map_of lw' (VStr ''dev1'')
        = Some (VDict [(''ip'', VStr ''1.2.3.4''), (''timeout'', VInt 5)])"
proof -
  let ?l = "skeys [(''host'', VStr ''0.0.0.0''), (''port'', VInt 8888),
                (''global_brightness'', VFloat 0.5),
                (''audio'', VDict [(''min_volume'', VFloat 0.2), (''delay_ms'', VInt 0)]),
                (''melbanks'', VDict [(''max_frequencies'', VList [VInt 350, VInt 2000])]),
                (''wled_preferences'', VDict [(''dev1'', VDict [(''ip'', VStr ''1.2.3.4'')])])]"
  let ?la = "skeys [(''min_volume'', VFloat 0.2), (''delay_ms'', VInt 0)]"
  let ?lm = "skeys [(''max_frequencies'', VList [VInt 350, VInt 2000])]"
  let ?lw = "skeys [(''dev1'', VDict [(''ip'', VStr ''1.2.3.4'')])]"
  let ?w = "[(''dev1'', VDict [(''timeout'', VInt 5)])]"
  have live: "config example_ledfx = VMap ?l" by (simp add: example_ledfx_def VDict_def)
  have la: "map_of ?l (VStr ''audio'') = Some (VMap ?la)" by (simp add: map_of_skeys VDict_def)
  have lm: "map_of ?l (VStr ''melbanks'') = Some (VMap ?lm)" by (simp add: map_of_skeys VDict_def)
  have lw: "map_of ?l (VStr ''wled_preferences'') = Some (VMap ?lw)"
    by (simp add: map_of_skeys VDict_def)
  have nested: "\<forall>k v old. map_of ?w k = Some v \<and> map_of ?lw (VStr k) = Some old
                   \<longrightarrow> fst (py_update old v) = None"
    by (simp add: map_of_skeys py_update_def VDict_def split: if_splits)
  from update_config_merge_policy[OF example_fragments_run live la lm lw nested]
  show ?thesis
  proof (elim exE conjE)
    fix l' la' lm' lw'
    assume cfg: "config (fst (snd (update_config example_env example_ledfx
        (VDict [(''global_brightness'', VFloat 0.8),
           (''audio'', VDict [(''min_volume'', VFloat 0.3)]),
           (''wled_preferences'', VDict [(''dev1'', VDict [(''timeout'', VInt 5)])])])))) = VMap l'"
      and audio: "map_of l' (VStr ''audio'') = Some (VMap la')"
      and la': "map_of la' = map_of ?la ++ map_of (skeys [(''min_volume'', VFloat 0.3)])"
      and core: "\<forall>k. k \<notin> {VStr ''audio'', VStr ''melbanks'', VStr ''wled_preferences''}
            \<longrightarrow> map_of l' k = (map_of ?l ++ map_of (skeys [(''global_brightness'', VFloat 0.8)])) k"
      and wled: "map_of l' (VStr ''wled_preferences'') = Some (VMap lw')"
      and two: "\<forall>k. map_of lw' k =
            (case map_of (skeys ?w) k of
               None \<Rightarrow> map_of ?lw k
             | Some v \<Rightarrow>
                 (case map_of ?lw k of
                    None \<Rightarrow> Some v
                  | Some old \<Rightarrow> Some (snd (py_update old v))))"
    have dev1: "map_of lw' (VStr ''dev1'')
        = Some (VDict [(''ip'', VStr ''1.2.3.4''), (''timeout'', VInt 5)])"
      unfolding two[rule_format, of "VStr ''dev1''"]
      by (simp add: py_update_def VDict_def skeys_def key_eq_def)
    have gb: "map_of l' (VStr ''global_brightness'') = Some (VFloat 0.8)"
      unfolding core[rule_format, of "VStr ''global_brightness''", simplified]
      by (simp add: map_of_skeys)
    have port: "map_of l' (VStr ''port'') = Some (VInt 8888)"
      unfolding core[rule_format, of "VStr ''port''", simplified]
      by (simp add: map_of_skeys map_add_def)
    have mv: "map_of la' (VStr ''min_volume'') = Some (VFloat 0.3)"
      and dl: "map_of la' (VStr ''delay_ms'') = Some (VInt 0)"
      unfolding la' by (simp_all add: map_of_skeys map_add_def)
    show ?thesis
      apply (rule exI[of _ l'], rule exI[of _ la'], rule exI[of _ lw'])
      apply (intro conjI)
      by (fact cfg gb port audio mv dl wled dev1)+
  qed
qed

text \<open>
  C5 as the claim words it does not hold for every live configuration. Here \<open>dev1\<close> is
  live in wled\_preferences with a string as its value. All validations succeed and the
  core fragment is merged, but for \<open>dev1\<close> line 258 calls \<^verbatim>\<open>update\<close> on the string:
  \<open>update_config\<close> raises AttributeError, and the value of \<open>dev1\<close> is neither merged nor
  replaced.
\<close>

theorem update_config_merge_policy_counterexample:
  "fst (validate_fragments example_env
     (VDict [(''global_brightness'', VFloat 0.8),
             (''wled_preferences'', VDict [(''dev1'', VDict [(''timeout'', VInt 5)])])]))
     = Inr ([], [(''dev1'', VDict [(''timeout'', VInt 5)])], [],
            [(''global_brightness'', VFloat 0.8)])
   \<and> update_config example_env example_flat_ledfx
     (VDict [(''global_brightness'', VFloat 0.8),
             (''wled_preferences'', VDict [(''dev1'', VDict [(''timeout'', VInt 5)])])])
     = (Inl AttributeError,
        example_ledfx\<lparr>config :=
          VDict [(''host'', VStr ''0.0.0.0''), (''port'', VInt 8888),
                 (''global_brightness'', VFloat 0.8),
                 (''audio'', VDict [(''min_volume'', VFloat 0.2), (''delay_ms'', VInt 0)]),
                 (''melbanks'', VDict [(''max_frequencies'', VList [VInt 350, VInt 2000])]),
                 (''wled_preferences'', VDict [(''dev1'', VStr ''UDP'')])]\<rparr>,
        VDict [(''global_brightness'', VFloat 0.8)])"
  by (simp add: update_config_def validate_fragments_def run_defs example_defs
      apply_fragments_def update_item_def wled_step_def notify_def fire_def)

end
